theory Spec2Isabelle
  imports Main
begin

section \<open>Python values, exceptions and the transport\<close>

text \<open>
  A Python string is a sequence of Unicode code points, here natural numbers;
  \<open>ascii ''abc''\<close> is the string of the codes of the characters \<open>a\<close>, \<open>b\<close>, \<open>c\<close>.
\<close>

type_synonym str = "nat list"

definition ascii :: "string \<Rightarrow> str" where
  "ascii s = map of_char s"

text \<open>
  The raw status record is decoded JSON: a dictionary with string keys whose values are
  \<open>None\<close>, booleans, integers, strings, lists and dictionaries. Dictionaries are
  association lists looked up with \<open>map_of\<close>. JSON floats are left out.
\<close>

datatype pyval =
    PyNone
  | PyBool bool
  | PyInt int
  | PyStr str
  | PyList "pyval list"
  | PyDict "(str \<times> pyval) list"

type_synonym pydict = "(str \<times> pyval) list"

text \<open>
  The exception classes that the two modules can raise, by class only (the message and
  the arguments of an exception are not modelled). \<open>SmartStripException\<close> is the
  strip's own subclass of \<open>SmartDeviceException\<close>, which the transport raises.
\<close>

datatype error =
    ValueError
  | TypeError
  | KeyError
  | IndexError
  | AttributeError
  | OverflowError
  | SmartDeviceException
  | SmartStripException

text \<open>\<open>d[key]\<close> on a dictionary.\<close>

definition dict_get :: "pydict \<Rightarrow> str \<Rightarrow> error + pyval" where
  "dict_get d k = (case map_of d k of None \<Rightarrow> Inl KeyError | Some v \<Rightarrow> Inr v)"

text \<open>\<open>v[key]\<close> for a string key: only a dictionary can be subscripted by a string.\<close>

fun getitem_key :: "pyval \<Rightarrow> str \<Rightarrow> error + pyval" where
  "getitem_key (PyDict d) k = dict_get d k"
| "getitem_key v k = Inl TypeError"

text \<open>
  \<open>v[i]\<close> for an integer: lists and strings are indexed (a negative index counts from
  the end), a JSON dictionary has no integer key, nothing else can be subscripted.
\<close>

definition seq_index :: "'a list \<Rightarrow> int \<Rightarrow> error + 'a" where
  "seq_index xs i =
     (if 0 \<le> i \<and> i < int (length xs) then Inr (xs ! nat i)
      else if i < 0 \<and> - int (length xs) \<le> i then Inr (xs ! nat (int (length xs) + i))
      else Inl IndexError)"

fun getitem_idx :: "pyval \<Rightarrow> int \<Rightarrow> error + pyval" where
  "getitem_idx (PyList xs) i = seq_index xs i"
| "getitem_idx (PyStr s) i =
     (case seq_index s i of Inl e \<Rightarrow> Inl e | Inr c \<Rightarrow> Inr (PyStr [c]))"
| "getitem_idx (PyDict d) i = Inl KeyError"
| "getitem_idx v i = Inl TypeError"

text \<open>\<open>v[-2:]\<close>: the last two items of a string or a list.\<close>

fun slice_last2 :: "pyval \<Rightarrow> error + pyval" where
  "slice_last2 (PyStr s) = Inr (PyStr (drop (length s - 2) s))"
| "slice_last2 (PyList xs) = Inr (PyList (drop (length xs - 2) xs))"
| "slice_last2 v = Inl TypeError"

text \<open>\<open>for x in v\<close>: the items of a list, the characters of a string, the keys of a
  dictionary.\<close>

fun iter :: "pyval \<Rightarrow> error + pyval list" where
  "iter (PyList xs) = Inr xs"
| "iter (PyStr s) = Inr (map (\<lambda>c. PyStr [c]) s)"
| "iter (PyDict d) = Inr (map (\<lambda>kv. PyStr (fst kv)) d)"
| "iter v = Inl TypeError"

text \<open>\<open>v == n\<close> for an integer literal \<open>n\<close>: \<open>True == 1\<close> and \<open>False == 0\<close> hold in
  Python.\<close>

fun eq_int :: "pyval \<Rightarrow> int \<Rightarrow> bool" where
  "eq_int (PyInt i) n = (i = n)"
| "eq_int (PyBool b) n = ((if b then 1 else 0) = n)"
| "eq_int v n = False"

text \<open>\<open>bool(v)\<close>: Python truthiness.\<close>

fun bool_of :: "pyval \<Rightarrow> bool" where
  "bool_of PyNone = False"
| "bool_of (PyBool b) = b"
| "bool_of (PyInt i) = (i \<noteq> 0)"
| "bool_of (PyStr s) = (s \<noteq> [])"
| "bool_of (PyList xs) = (xs \<noteq> [])"
| "bool_of (PyDict d) = (d \<noteq> [])"

subsection \<open>Strings\<close>

text \<open>
  What Python's Unicode database says about the code points from 128 on is not part of
  the repository: it is the argument \<open>db\<close> of every function that depends on it. It
  gives the full upper case of a code point (one or more code points), whether a code
  point is white space, and the value of a code point that is a decimal digit. Below 128
  the three tables are written out.
\<close>

record unicode_db =
  upper_of :: "nat \<Rightarrow> nat list"
  isspace_of :: "nat \<Rightarrow> bool"
  decimal_of :: "nat \<Rightarrow> nat option"

text \<open>
  \<open>str.upper\<close>: every code point is replaced by its upper case, whatever stands
  around it. The codes 97 to 122 are the letters \<open>a\<close> to \<open>z\<close>, 32 below them their
  capitals.
\<close>

definition upper_cp :: "unicode_db \<Rightarrow> nat \<Rightarrow> nat list" where
  "upper_cp db c =
     (if c < 128 then (if 97 \<le> c \<and> c \<le> 122 then [c - 32] else [c]) else upper_of db c)"

definition upper :: "unicode_db \<Rightarrow> str \<Rightarrow> str" where
  "upper db s = concat (map (upper_cp db) s)"

text \<open>\<open>s.split(sep)\<close> for a one-character separator: every occurrence splits, empty
  pieces are kept.\<close>

fun split_str :: "nat \<Rightarrow> str \<Rightarrow> str list" where
  "split_str sep [] = [[]]"
| "split_str sep (c # cs) =
     (if c = sep then [] # split_str sep cs
      else (case split_str sep cs of
              [] \<Rightarrow> [[c]]
            | p # ps \<Rightarrow> (c # p) # ps))"

text \<open>
  \<open>int(v)\<close> on a string, in two steps. First every code point from 128 on becomes a
  space if it is white space, the ASCII digit of its value if it is a decimal digit, and
  a question mark (63) otherwise. Then the ASCII white space (9 to 13, and 32) at both
  ends is skipped, one sign is allowed (45 is the minus sign, 43 the plus sign), and
  decimal digits (48 to 57) follow, with single underscores (95) allowed between
  digits, as from Python 3.6.
\<close>

definition to_ascii :: "unicode_db \<Rightarrow> nat \<Rightarrow> nat" where
  "to_ascii db c =
     (if c < 128 then c
      else if isspace_of db c then 32
      else (case decimal_of db c of
              None \<Rightarrow> 63
            | Some d \<Rightarrow> if d < 10 then 48 + d else 63))"

definition is_space :: "nat \<Rightarrow> bool" where
  "is_space c = ((9 \<le> c \<and> c \<le> 13) \<or> c = 32)"

definition is_digit :: "nat \<Rightarrow> bool" where
  "is_digit c = (48 \<le> c \<and> c \<le> 57)"

definition digit_val :: "nat \<Rightarrow> int" where
  "digit_val c = int c - 48"

definition strip :: "str \<Rightarrow> str" where
  "strip s = rev (dropWhile is_space (rev (dropWhile is_space s)))"

fun parse_digits :: "int \<Rightarrow> str \<Rightarrow> int option" where
  "parse_digits acc [] = Some acc"
| "parse_digits acc (c # cs) =
     (if is_digit c then parse_digits (10 * acc + digit_val c) cs
      else if c = 95 then
        (case cs of
           [] \<Rightarrow> None
         | d # ds \<Rightarrow> if is_digit d then parse_digits (10 * acc + digit_val d) ds else None)
      else None)"

fun parse_unsigned :: "str \<Rightarrow> int option" where
  "parse_unsigned [] = None"
| "parse_unsigned (d # ds) = (if is_digit d then parse_digits (digit_val d) ds else None)"

definition int_of_str :: "unicode_db \<Rightarrow> str \<Rightarrow> int option" where
  "int_of_str db s =
     (case strip (map (to_ascii db) s) of
        [] \<Rightarrow> None
      | c # cs \<Rightarrow>
          if c = 45 then map_option uminus (parse_unsigned cs)
          else if c = 43 then parse_unsigned cs
          else parse_unsigned (c # cs))"

fun int_of :: "unicode_db \<Rightarrow> pyval \<Rightarrow> error + int" where
  "int_of db (PyInt i) = Inr i"
| "int_of db (PyBool b) = Inr (if b then 1 else 0)"
| "int_of db (PyStr s) = (case int_of_str db s of None \<Rightarrow> Inl ValueError | Some i \<Rightarrow> Inr i)"
| "int_of db v = Inl TypeError"

subsection \<open>Time\<close>

text \<open>
  A \<open>datetime\<close> is counted in microseconds since \<open>datetime.min\<close> (year 1); the last
  representable instant is the last microsecond of year 9999, which is 3652059 days
  later. \<open>timedelta(seconds=v)\<close> accepts a number within 999999999 days either way.
\<close>

definition datetime_span :: int where
  "datetime_span = 3652059 * 86400 * 1000000"

definition timedelta_seconds :: "pyval \<Rightarrow> error + int" where
  "timedelta_seconds v =
     (case v of
        PyInt n \<Rightarrow>
          if - 86399999913600 \<le> n \<and> n \<le> 86399999999999 then Inr (n * 1000000)
          else Inl OverflowError
      | PyBool b \<Rightarrow> Inr (if b then 1000000 else 0)
      | _ \<Rightarrow> Inl TypeError)"

definition datetime_sub :: "int \<Rightarrow> int \<Rightarrow> error + int" where
  "datetime_sub t delta =
     (if 0 \<le> t - delta \<and> t - delta < datetime_span then Inr (t - delta) else Inl OverflowError)"

subsection \<open>The transport and the log\<close>

text \<open>
  What an operation leaves behind: the commands handed to the transport, in order, and
  the values reported through \<open>_LOGGER.warning\<close>.
\<close>

record command =
  ctx :: "pyval option"
  target :: str
  cmd :: str
  arg :: pydict

record world =
  sent :: "command list"
  warned :: "pyval list"

text \<open>The transport answers a command with a raw result, or fails (\<open>None\<close>).\<close>

type_synonym transport = "command \<Rightarrow> pyval option"

text \<open>
  Modelled from the spec: \<open>SmartDevice._query_helper\<close> (the collaborator's
  \<open>sendCommand(module, action, params)\<close>, optionally scoped by a \<open>context\<close>) is not
  part of the two modules. It hands one command to the transport, in a single attempt,
  and returns the raw result or fails with the transport's error.
\<close>

definition query_helper ::
  "transport \<Rightarrow> pyval option \<Rightarrow> str \<Rightarrow> str \<Rightarrow> pydict \<Rightarrow> world \<Rightarrow> (error + pyval) \<times> world" where
  "query_helper tr c t m a w =
     (let q = \<lparr>ctx = c, target = t, cmd = m, arg = a\<rparr>
      in (case tr q of None \<Rightarrow> Inl SmartDeviceException | Some r \<Rightarrow> Inr r,
          w\<lparr>sent := sent w @ [q]\<rparr>))"

definition warning :: "pyval \<Rightarrow> world \<Rightarrow> world" where
  "warning v w = w\<lparr>warned := warned w @ [v]\<rparr>"

section \<open>The single-relay device: \<open>SmartMultiPlug\<close>\<close>

definition SWITCH_STATE_ON :: str where
  "SWITCH_STATE_ON = ascii ''ON''"

definition SWITCH_STATE_OFF :: str where
  "SWITCH_STATE_OFF = ascii ''OFF''"

definition SWITCH_STATE_UNKNOWN :: str where
  "SWITCH_STATE_UNKNOWN = ascii ''UNKNOWN''"

text \<open>
  Every operation reads \<open>self.sys_info\<close>, the raw status record that the collaborator's
  \<open>queryDeviceInfo\<close> fetches from the device. It is the argument \<open>si\<close>: one snapshot
  for the whole operation, and the fetch is not counted among the commands sent.
\<close>

definition SmartMultiPlug_state :: "pydict \<Rightarrow> world \<Rightarrow> (error + str) \<times> world" where
  "SmartMultiPlug_state si w =
     (case dict_get si (ascii ''relay_state'') of
        Inl e \<Rightarrow> (Inl e, w)
      | Inr relay_state \<Rightarrow>
          if eq_int relay_state 0 then (Inr SWITCH_STATE_OFF, w)
          else if eq_int relay_state 1 then (Inr SWITCH_STATE_ON, w)
          else (Inr SWITCH_STATE_UNKNOWN, warning relay_state w))"

definition SmartMultiPlug_turn_on :: "transport \<Rightarrow> world \<Rightarrow> (error + unit) \<times> world" where
  "SmartMultiPlug_turn_on tr w =
     (case query_helper tr None (ascii ''system'') (ascii ''set_relay_state'') [(ascii ''state'', PyInt 1)] w of
        (Inl e, w') \<Rightarrow> (Inl e, w')
      | (Inr r, w') \<Rightarrow> (Inr (), w'))"

definition SmartMultiPlug_turn_off :: "transport \<Rightarrow> world \<Rightarrow> (error + unit) \<times> world" where
  "SmartMultiPlug_turn_off tr w =
     (case query_helper tr None (ascii ''system'') (ascii ''set_relay_state'') [(ascii ''state'', PyInt 0)] w of
        (Inl e, w') \<Rightarrow> (Inl e, w')
      | (Inr r, w') \<Rightarrow> (Inr (), w'))"

definition SmartMultiPlug_state_setter ::
  "unicode_db \<Rightarrow> transport \<Rightarrow> pyval \<Rightarrow> world \<Rightarrow> (error + unit) \<times> world" where
  "SmartMultiPlug_state_setter db tr v w =
     (case v of
        PyStr s \<Rightarrow>
          if upper db s = SWITCH_STATE_ON then SmartMultiPlug_turn_on tr w
          else if upper db s = SWITCH_STATE_OFF then SmartMultiPlug_turn_off tr w
          else (Inl ValueError, w)
      | _ \<Rightarrow> (Inl ValueError, w))"

text \<open>
  \<open>SmartDevice.FEATURE_ENERGY_METER\<close> is defined outside the two modules; it is the
  argument \<open>marker\<close>. A \<open>feature\<close> field that is not a string has no \<open>split\<close>.
  The separator 58 is the colon.
\<close>

definition has_emeter :: "str \<Rightarrow> pydict \<Rightarrow> error + bool" where
  "has_emeter marker si =
     (case dict_get si (ascii ''feature'') of
        Inl e \<Rightarrow> Inl e
      | Inr f \<Rightarrow>
          (case f of
             PyStr s \<Rightarrow> Inr (marker \<in> set (split_str 58 s))
           | _ \<Rightarrow> Inl AttributeError))"

definition SmartMultiPlug_is_on :: "pydict \<Rightarrow> error + bool" where
  "SmartMultiPlug_is_on si =
     (case dict_get si (ascii ''relay_state'') of Inl e \<Rightarrow> Inl e | Inr v \<Rightarrow> Inr (bool_of v))"

text \<open>
  \<open>_get_idx_info(id)\<close>: the first child whose id ends in two characters that read as
  \<open>id\<close>; \<open>None\<close> when the loop ends without a match.
\<close>

fun get_idx_info_loop :: "unicode_db \<Rightarrow> int \<Rightarrow> pyval list \<Rightarrow> error + pyval" where
  "get_idx_info_loop db i [] = Inr PyNone"
| "get_idx_info_loop db i (info # rest) =
     (case getitem_key info (ascii ''id'') of
        Inl e \<Rightarrow> Inl e
      | Inr cid \<Rightarrow>
          (case slice_last2 cid of
             Inl e \<Rightarrow> Inl e
           | Inr suffix \<Rightarrow>
               (case int_of db suffix of
                  Inl e \<Rightarrow> Inl e
                | Inr n \<Rightarrow> if i = n then Inr info else get_idx_info_loop db i rest)))"

definition get_idx_info :: "unicode_db \<Rightarrow> pydict \<Rightarrow> int \<Rightarrow> error + pyval" where
  "get_idx_info db si i =
     (case dict_get si (ascii ''children'') of
        Inl e \<Rightarrow> Inl e
      | Inr children \<Rightarrow>
          (case iter children of
             Inl e \<Rightarrow> Inl e
           | Inr infos \<Rightarrow> get_idx_info_loop db i infos))"

text \<open>
  \<open>on_since(idx)\<close>, with \<open>now\<close> the reading of the clock. The body looks up child 0
  whatever \<open>idx\<close> is; subscripting the \<open>None\<close> of a failed lookup is a \<open>TypeError\<close>.
\<close>

definition SmartMultiPlug_on_since ::
  "unicode_db \<Rightarrow> int \<Rightarrow> pydict \<Rightarrow> int \<Rightarrow> error + int" where
  "SmartMultiPlug_on_since db now si idx =
     (case get_idx_info db si 0 of
        Inl e \<Rightarrow> Inl e
      | Inr id_info \<Rightarrow>
          (case getitem_key id_info (ascii ''on_time'') of
             Inl e \<Rightarrow> Inl e
           | Inr on_time \<Rightarrow>
               (case timedelta_seconds on_time of
                  Inl e \<Rightarrow> Inl e
                | Inr delta \<Rightarrow> datetime_sub now delta)))"

section \<open>The strip: \<open>SmartStrip\<close> and its outlet proxies\<close>

text \<open>
  An outlet proxy is a \<open>SmartPlug\<close> built with the strip's host and the child's id as
  its \<open>context\<close>.
\<close>

record SmartPlug =
  host :: str
  plug_context :: pyval

text \<open>
  The strip object: its host, its outlet count and the proxies keyed by outlet index.
\<close>

record SmartStrip =
  strip_host :: str
  num_children :: nat
  plugs :: "int \<rightharpoonup> SmartPlug"

text \<open>A result is either the aggregate over all outlets or what one proxy returned.\<close>

datatype ('agg, 'one) dispatch = Aggregate 'agg | Delegated 'one

text \<open>\<open>len(v)\<close> and \<open>range(n)\<close>.\<close>

fun len :: "pyval \<Rightarrow> error + nat" where
  "len (PyList xs) = Inr (length xs)"
| "len (PyStr s) = Inr (length s)"
| "len (PyDict d) = Inr (length d)"
| "len v = Inl TypeError"

definition range_py :: "nat \<Rightarrow> int list" where
  "range_py n = map int [0..<n]"

text \<open>
  Modelled from the spec: the operations of \<open>SmartPlug\<close> are not part of the two
  modules. An outlet proxy's state setter, \<open>turn_on\<close> and \<open>turn_off\<close> are the
  single-relay operations with every command scoped by the proxy's context.
\<close>

definition SmartPlug_turn_on :: "transport \<Rightarrow> SmartPlug \<Rightarrow> world \<Rightarrow> (error + unit) \<times> world" where
  "SmartPlug_turn_on tr p w =
     (case query_helper tr (Some (plug_context p)) (ascii ''system'') (ascii ''set_relay_state'')
             [(ascii ''state'', PyInt 1)] w of
        (Inl e, w') \<Rightarrow> (Inl e, w')
      | (Inr r, w') \<Rightarrow> (Inr (), w'))"

definition SmartPlug_turn_off :: "transport \<Rightarrow> SmartPlug \<Rightarrow> world \<Rightarrow> (error + unit) \<times> world" where
  "SmartPlug_turn_off tr p w =
     (case query_helper tr (Some (plug_context p)) (ascii ''system'') (ascii ''set_relay_state'')
             [(ascii ''state'', PyInt 0)] w of
        (Inl e, w') \<Rightarrow> (Inl e, w')
      | (Inr r, w') \<Rightarrow> (Inr (), w'))"

definition SmartPlug_set_state ::
  "unicode_db \<Rightarrow> transport \<Rightarrow> SmartPlug \<Rightarrow> pyval \<Rightarrow> world \<Rightarrow> (error + unit) \<times> world" where
  "SmartPlug_set_state db tr p v w =
     (case v of
        PyStr s \<Rightarrow>
          if upper db s = SWITCH_STATE_ON then SmartPlug_turn_on tr p w
          else if upper db s = SWITCH_STATE_OFF then SmartPlug_turn_off tr p w
          else (Inl ValueError, w)
      | _ \<Rightarrow> (Inl ValueError, w))"

text \<open>
  The loop of \<open>__init__\<close>: one proxy per index of \<open>range(num_children)\<close>, built with
  the id of the child at that index.
\<close>

fun init_loop ::
  "str \<Rightarrow> pyval \<Rightarrow> int list \<Rightarrow> (int \<rightharpoonup> SmartPlug) \<Rightarrow> error + (int \<rightharpoonup> SmartPlug)" where
  "init_loop h children [] ps = Inr ps"
| "init_loop h children (plug # rest) ps =
     (case getitem_idx children plug of
        Inl e \<Rightarrow> Inl e
      | Inr child \<Rightarrow>
          (case getitem_key child (ascii ''id'') of
             Inl e \<Rightarrow> Inl e
           | Inr cid \<Rightarrow>
               init_loop h children rest (ps(plug \<mapsto> \<lparr>host = h, plug_context = cid\<rparr>))))"

text \<open>
  Modelled from the spec: \<open>num_children\<close> is defined outside the two modules. The
  outlet count is \<open>len(children)\<close> of the raw status record \<open>si\<close> read at construction,
  and it stays what it was at construction.
\<close>

definition SmartStrip_init :: "str \<Rightarrow> pydict \<Rightarrow> error + SmartStrip" where
  "SmartStrip_init h si =
     (case dict_get si (ascii ''children'') of
        Inl e \<Rightarrow> Inl e
      | Inr children \<Rightarrow>
          (case len children of
             Inl e \<Rightarrow> Inl e
           | Inr n \<Rightarrow>
               (case init_loop h children (range_py n) Map.empty of
                  Inl e \<Rightarrow> Inl e
                | Inr ps \<Rightarrow> Inr \<lparr>strip_host = h, num_children = n, plugs = ps\<rparr>)))"

definition raise_for_index :: "SmartStrip \<Rightarrow> int \<Rightarrow> error + unit" where
  "raise_for_index s index =
     (if plugs s index = None then Inl SmartStripException else Inr ())"

text \<open>
  The \<open>state\<close> property. In the loop body the test for 0 is an \<open>if\<close> of its own, and
  the test for 1 that follows it has the \<open>else\<close>: the second statement assigns
  \<open>switch_state\<close> whatever the first one did. The strip names the three states through
  \<open>SmartPlug\<close>, outside the two modules; they are the strings of the single-relay
  device.
\<close>

fun state_loop ::
  "pyval \<Rightarrow> int list \<Rightarrow> (int \<rightharpoonup> str) \<Rightarrow> world \<Rightarrow> (error + (int \<rightharpoonup> str)) \<times> world" where
  "state_loop children [] states w = (Inr states, w)"
| "state_loop children (plug # rest) states w =
     (case getitem_idx children plug of
        Inl e \<Rightarrow> (Inl e, w)
      | Inr child \<Rightarrow>
          (case getitem_key child (ascii ''state'') of
             Inl e \<Rightarrow> (Inl e, w)
           | Inr relay_state \<Rightarrow>
               (let switch_state =
                      (if eq_int relay_state 0 then Some SWITCH_STATE_OFF else None);
                    (switch_state, w) =
                      (if eq_int relay_state 1 then (SWITCH_STATE_ON, w)
                       else (SWITCH_STATE_UNKNOWN, warning relay_state w))
                in state_loop children rest (states(plug \<mapsto> switch_state)) w)))"

definition SmartStrip_state ::
  "SmartStrip \<Rightarrow> pydict \<Rightarrow> world \<Rightarrow> (error + (int \<rightharpoonup> str)) \<times> world" where
  "SmartStrip_state s si w =
     (case dict_get si (ascii ''children'') of
        Inl e \<Rightarrow> (Inl e, w)
      | Inr children \<Rightarrow> state_loop children (range_py (num_children s)) Map.empty w)"

definition SmartStrip_turn_on ::
  "transport \<Rightarrow> SmartStrip \<Rightarrow> int \<Rightarrow> world \<Rightarrow> (error + unit) \<times> world" where
  "SmartStrip_turn_on tr s index w =
     (if index < 0 then
        (case query_helper tr None (ascii ''system'') (ascii ''set_relay_state'') [(ascii ''state'', PyInt 1)] w of
           (Inl e, w') \<Rightarrow> (Inl e, w')
         | (Inr r, w') \<Rightarrow> (Inr (), w'))
      else
        (case raise_for_index s index of
           Inl e \<Rightarrow> (Inl e, w)
         | Inr u \<Rightarrow>
             (case plugs s index of
                None \<Rightarrow> (Inl KeyError, w)
              | Some p \<Rightarrow> SmartPlug_turn_on tr p w)))"

definition SmartStrip_turn_off ::
  "transport \<Rightarrow> SmartStrip \<Rightarrow> int \<Rightarrow> world \<Rightarrow> (error + unit) \<times> world" where
  "SmartStrip_turn_off tr s index w =
     (if index < 0 then
        (case query_helper tr None (ascii ''system'') (ascii ''set_relay_state'') [(ascii ''state'', PyInt 0)] w of
           (Inl e, w') \<Rightarrow> (Inl e, w')
         | (Inr r, w') \<Rightarrow> (Inr (), w'))
      else
        (case raise_for_index s index of
           Inl e \<Rightarrow> (Inl e, w)
         | Inr u \<Rightarrow>
             (case plugs s index of
                None \<Rightarrow> (Inl KeyError, w)
              | Some p \<Rightarrow> SmartPlug_turn_off tr p w)))"

text \<open>The \<open>state\<close> setter calls \<open>turn_on\<close> and \<open>turn_off\<close> with their default index.\<close>

definition SmartStrip_state_setter ::
  "unicode_db \<Rightarrow> transport \<Rightarrow> SmartStrip \<Rightarrow> pyval \<Rightarrow> world \<Rightarrow> (error + unit) \<times> world" where
  "SmartStrip_state_setter db tr s v w =
     (case v of
        PyStr x \<Rightarrow>
          if upper db x = SWITCH_STATE_ON then SmartStrip_turn_on tr s (- 1) w
          else if upper db x = SWITCH_STATE_OFF then SmartStrip_turn_off tr s (- 1) w
          else (Inl ValueError, w)
      | _ \<Rightarrow> (Inl ValueError, w))"

definition SmartStrip_set_state ::
  "unicode_db \<Rightarrow> transport \<Rightarrow> SmartStrip \<Rightarrow> pyval \<Rightarrow> int \<Rightarrow> world
     \<Rightarrow> (error + unit) \<times> world" where
  "SmartStrip_set_state db tr s v index w =
     (if index < 0 then SmartStrip_state_setter db tr s v w
      else
        (case raise_for_index s index of
           Inl e \<Rightarrow> (Inl e, w)
         | Inr u \<Rightarrow>
             (case plugs s index of
                None \<Rightarrow> (Inl KeyError, w)
              | Some p \<Rightarrow> SmartPlug_set_state db tr p v w)))"

text \<open>
  \<open>is_on\<close>, \<open>on_since\<close> and \<open>get_emeter_realtime\<close> hand a single outlet to the proxy's
  own \<open>is_on()\<close>, \<open>on_since\<close> and \<open>get_emeter_realtime()\<close>. These belong to
  \<open>SmartPlug\<close>, outside the two modules, and the strip does not look into what they
  return: each is an argument, a function of the proxy and the log.
\<close>

type_synonym 'a proxy_op = "SmartPlug \<Rightarrow> world \<Rightarrow> (error + 'a) \<times> world"

fun is_on_loop :: "pyval \<Rightarrow> int list \<Rightarrow> (int \<rightharpoonup> bool) \<Rightarrow> error + (int \<rightharpoonup> bool)" where
  "is_on_loop children [] is_on = Inr is_on"
| "is_on_loop children (plug # rest) is_on =
     (case getitem_idx children plug of
        Inl e \<Rightarrow> Inl e
      | Inr child \<Rightarrow>
          (case getitem_key child (ascii ''relay_state'') of
             Inl e \<Rightarrow> Inl e
           | Inr v \<Rightarrow> is_on_loop children rest (is_on(plug \<mapsto> bool_of v))))"

definition SmartStrip_is_on ::
  "'a proxy_op \<Rightarrow> SmartStrip \<Rightarrow> pydict \<Rightarrow> int \<Rightarrow> world
     \<Rightarrow> (error + (int \<rightharpoonup> bool, 'a) dispatch) \<times> world" where
  "SmartStrip_is_on proxy_is_on s si index w =
     (if index < 0 then
        (case dict_get si (ascii ''children'') of
           Inl e \<Rightarrow> (Inl e, w)
         | Inr children \<Rightarrow>
             (case is_on_loop children (range_py (num_children s)) Map.empty of
                Inl e \<Rightarrow> (Inl e, w)
              | Inr is_on \<Rightarrow> (Inr (Aggregate is_on), w)))
      else
        (case raise_for_index s index of
           Inl e \<Rightarrow> (Inl e, w)
         | Inr u \<Rightarrow>
             (case plugs s index of
                None \<Rightarrow> (Inl KeyError, w)
              | Some p \<Rightarrow>
                  (case proxy_is_on p w of
                     (Inl e, w') \<Rightarrow> (Inl e, w')
                   | (Inr r, w') \<Rightarrow> (Inr (Delegated r), w')))))"

fun on_since_loop :: "pyval \<Rightarrow> int list \<Rightarrow> (int \<rightharpoonup> pyval) \<Rightarrow> error + (int \<rightharpoonup> pyval)" where
  "on_since_loop children [] on_since = Inr on_since"
| "on_since_loop children (plug # rest) on_since =
     (case getitem_idx children plug of
        Inl e \<Rightarrow> Inl e
      | Inr child \<Rightarrow>
          (case getitem_key child (ascii ''on_time'') of
             Inl e \<Rightarrow> Inl e
           | Inr v \<Rightarrow> on_since_loop children rest (on_since(plug \<mapsto> v))))"

definition SmartStrip_on_since ::
  "'a proxy_op \<Rightarrow> SmartStrip \<Rightarrow> pydict \<Rightarrow> int \<Rightarrow> world
     \<Rightarrow> (error + (int \<rightharpoonup> pyval, 'a) dispatch) \<times> world" where
  "SmartStrip_on_since proxy_on_since s si index w =
     (if index < 0 then
        (case dict_get si (ascii ''children'') of
           Inl e \<Rightarrow> (Inl e, w)
         | Inr children \<Rightarrow>
             (case on_since_loop children (range_py (num_children s)) Map.empty of
                Inl e \<Rightarrow> (Inl e, w)
              | Inr on_since \<Rightarrow> (Inr (Aggregate on_since), w)))
      else
        (case raise_for_index s index of
           Inl e \<Rightarrow> (Inl e, w)
         | Inr u \<Rightarrow>
             (case plugs s index of
                None \<Rightarrow> (Inl KeyError, w)
              | Some p \<Rightarrow>
                  (case proxy_on_since p w of
                     (Inl e, w') \<Rightarrow> (Inl e, w')
                   | (Inr r, w') \<Rightarrow> (Inr (Delegated r), w')))))"

text \<open>
  \<open>get_emeter_realtime\<close>: \<open>None\<close> is Python's \<open>None\<close>, returned when the strip has no
  energy meter. The strip inherits \<open>has_emeter\<close> from \<open>SmartPlug\<close>; it is the
  single-relay device's rule on the feature field.
\<close>

fun emeter_loop ::
  "'a proxy_op \<Rightarrow> (int \<rightharpoonup> SmartPlug) \<Rightarrow> int list \<Rightarrow> (int \<rightharpoonup> 'a) \<Rightarrow> world
     \<Rightarrow> (error + (int \<rightharpoonup> 'a)) \<times> world" where
  "emeter_loop proxy_emeter ps [] emeter_status w = (Inr emeter_status, w)"
| "emeter_loop proxy_emeter ps (plug # rest) emeter_status w =
     (case ps plug of
        None \<Rightarrow> (Inl KeyError, w)
      | Some p \<Rightarrow>
          (case proxy_emeter p w of
             (Inl e, w') \<Rightarrow> (Inl e, w')
           | (Inr r, w') \<Rightarrow> emeter_loop proxy_emeter ps rest (emeter_status(plug \<mapsto> r)) w'))"

definition SmartStrip_get_emeter_realtime ::
  "str \<Rightarrow> 'a proxy_op \<Rightarrow> SmartStrip \<Rightarrow> pydict \<Rightarrow> int \<Rightarrow> world
     \<Rightarrow> (error + (int \<rightharpoonup> 'a, 'a) dispatch option) \<times> world" where
  "SmartStrip_get_emeter_realtime marker proxy_emeter s si index w =
     (case has_emeter marker si of
        Inl e \<Rightarrow> (Inl e, w)
      | Inr has \<Rightarrow>
          if \<not> has then (Inr None, w)
          else if index < 0 then
            (case emeter_loop proxy_emeter (plugs s) (range_py (num_children s)) Map.empty w of
               (Inl e, w') \<Rightarrow> (Inl e, w')
             | (Inr emeter_status, w') \<Rightarrow> (Inr (Some (Aggregate emeter_status)), w'))
          else
            (case raise_for_index s index of
               Inl e \<Rightarrow> (Inl e, w)
             | Inr u \<Rightarrow>
                 (case plugs s index of
                    None \<Rightarrow> (Inl KeyError, w)
                  | Some p \<Rightarrow>
                      (case proxy_emeter p w of
                         (Inl e, w') \<Rightarrow> (Inl e, w')
                       | (Inr r, w') \<Rightarrow> (Inr (Some (Delegated r)), w')))))"

section \<open>Tokens, commands and sample devices used in the statements\<close>

text \<open>
  The strings that match \<open>ON\<close>, and those that match \<open>OFF\<close>, without regard to case.
  Among the ASCII strings these are the four spellings of \<open>on\<close> and the eight of
  \<open>off\<close>.
\<close>

definition is_on_token :: "pyval \<Rightarrow> bool" where
  "is_on_token v = (v \<in> set (map (\<lambda>s. PyStr (ascii s)) [''ON'', ''On'', ''oN'', ''on'']))"

definition is_off_token :: "pyval \<Rightarrow> bool" where
  "is_off_token v =
     (v \<in> set (map (\<lambda>s. PyStr (ascii s))
        [''OFF'', ''OFf'', ''OfF'', ''Off'', ''oFF'', ''oFf'', ''ofF'', ''off'']))"

text \<open>
  Beyond ASCII, Unicode has one more way to write \<open>off\<close>: with the ligature of two
  small letters \<open>f\<close>, the code point FB00 (64256). Its case folding is \<open>ff\<close> and its
  upper case is \<open>FF\<close>, so \<open>o\<close> or \<open>O\<close> followed by the ligature matches \<open>OFF\<close>
  without regard to case.
\<close>

definition is_off_ligature :: "pyval \<Rightarrow> bool" where
  "is_off_ligature v = (v = PyStr [79, 64256] \<or> v = PyStr [111, 64256])"

text \<open>
  What the statements about upper case need of Python's Unicode database. From 128 on,
  no code point has an empty upper case; the ligature FB00 has the upper case \<open>FF\<close>
  (70 is \<open>F\<close>, 78 is \<open>N\<close>, 79 is \<open>O\<close>); and no other code point has an upper case
  that is a part of \<open>ON\<close> or of \<open>OFF\<close>.
\<close>

definition upper_table_ok :: "unicode_db \<Rightarrow> bool" where
  "upper_table_ok db =
     (upper_of db 64256 = [70, 70] \<and>
      (\<forall>c. 128 \<le> c \<and> c \<noteq> 64256 \<longrightarrow>
         upper_of db c \<notin> {[], [79], [78], [70], [79, 78], [79, 70], [70, 70], [79, 70, 70]}))"

text \<open>
  A sample database for the examples: beyond ASCII it knows the ligature FB00, the
  no-break space (160) and the Arabic-Indic digits (1632 to 1641), and takes every
  other code point for a letter without case.
\<close>

definition sample_db :: unicode_db where
  "sample_db =
     \<lparr>upper_of = (\<lambda>c. if c = 64256 then [70, 70] else [c]),
      isspace_of = (\<lambda>c. c = 160),
      decimal_of = (\<lambda>c. if 1632 \<le> c \<and> c \<le> 1641 then Some (c - 1632) else None)\<rparr>"

text \<open>The command \<open>system.set_relay_state\<close> with state \<open>n\<close>, scoped by \<open>c\<close>.\<close>

definition relay_command :: "pyval option \<Rightarrow> int \<Rightarrow> command" where
  "relay_command c n =
     \<lparr>ctx = c, target = ascii ''system'', cmd = ascii ''set_relay_state'',
      arg = [(ascii ''state'', PyInt n)]\<rparr>"

text \<open>What the transport's single attempt turns into.\<close>

definition sent_result :: "transport \<Rightarrow> command \<Rightarrow> error + unit" where
  "sent_result tr q = (case tr q of None \<Rightarrow> Inl SmartDeviceException | Some r \<Rightarrow> Inr ())"

text \<open>A transport that accepts every command, and a log with nothing in it.\<close>

definition accepting :: transport where
  "accepting q = Some PyNone"

definition world0 :: world where
  "world0 = \<lparr>sent = [], warned = []\<rparr>"

text \<open>
  A strip with four outlets: outlet 1 is on, outlets 0 and 2 are off, outlet 3 reports
  the relay value 2. It has no energy meter.
\<close>

definition strip4_children :: "pyval list" where
  "strip4_children =
     [PyDict [(ascii ''id'', PyStr (ascii ''8006E9A400'')), (ascii ''state'', PyInt 0),
              (ascii ''relay_state'', PyInt 0), (ascii ''on_time'', PyInt 0)],
      PyDict [(ascii ''id'', PyStr (ascii ''8006E9A401'')), (ascii ''state'', PyInt 1),
              (ascii ''relay_state'', PyInt 1), (ascii ''on_time'', PyInt 120)],
      PyDict [(ascii ''id'', PyStr (ascii ''8006E9A402'')), (ascii ''state'', PyInt 0),
              (ascii ''relay_state'', PyInt 0), (ascii ''on_time'', PyInt 0)],
      PyDict [(ascii ''id'', PyStr (ascii ''8006E9A403'')), (ascii ''state'', PyInt 2),
              (ascii ''relay_state'', PyInt 2), (ascii ''on_time'', PyInt 7)]]"

definition strip4_info :: pydict where
  "strip4_info =
     [(ascii ''relay_state'', PyInt 0), (ascii ''feature'', PyStr (ascii ''TIM'')),
      (ascii ''children'', PyList strip4_children)]"

text \<open>The same record with the energy-meter tag in the feature field.\<close>

definition strip4_info_ene :: pydict where
  "strip4_info_ene =
     [(ascii ''relay_state'', PyInt 0), (ascii ''feature'', PyStr (ascii ''TIM:ENE'')),
      (ascii ''children'', PyList strip4_children)]"

definition strip4 :: SmartStrip where
  "strip4 =
     \<lparr>strip_host = ascii ''192.168.1.105'', num_children = 4,
      plugs =
        [0 \<mapsto> \<lparr>host = ascii ''192.168.1.105'', plug_context = PyStr (ascii ''8006E9A400'')\<rparr>,
         1 \<mapsto> \<lparr>host = ascii ''192.168.1.105'', plug_context = PyStr (ascii ''8006E9A401'')\<rparr>,
         2 \<mapsto> \<lparr>host = ascii ''192.168.1.105'', plug_context = PyStr (ascii ''8006E9A402'')\<rparr>,
         3 \<mapsto> \<lparr>host = ascii ''192.168.1.105'', plug_context = PyStr (ascii ''8006E9A403'')\<rparr>]\<rparr>"

text \<open>
  A device whose children array has two records: child 0 has been on for an hour,
  child 1 for a minute.
\<close>

definition plug2_info :: pydict where
  "plug2_info =
     [(ascii ''relay_state'', PyInt 1), (ascii ''feature'', PyStr (ascii ''TIM'')),
      (ascii ''children'', PyList
         [PyDict [(ascii ''id'', PyStr (ascii ''8006E9A400'')), (ascii ''on_time'', PyInt 3600)],
          PyDict [(ascii ''id'', PyStr (ascii ''8006E9A401'')), (ascii ''on_time'', PyInt 60)]])]"

text \<open>
  Delegating to every proxy of a list in turn: the readings in order, or the first
  failure.
\<close>

fun in_turn :: "'a proxy_op \<Rightarrow> SmartPlug list \<Rightarrow> world \<Rightarrow> (error + 'a list) \<times> world" where
  "in_turn f [] w = (Inr [], w)"
| "in_turn f (p # ps) w =
     (case f p w of
        (Inl e, w') \<Rightarrow> (Inl e, w')
      | (Inr r, w') \<Rightarrow>
          (case in_turn f ps w' of
             (Inl e, w'') \<Rightarrow> (Inl e, w'')
           | (Inr rs, w'') \<Rightarrow> (Inr (r # rs), w'')))"

text \<open>A one-outlet strip whose outlet is off.\<close>

definition strip1_info :: pydict where
  "strip1_info =
     [(ascii ''relay_state'', PyInt 0), (ascii ''feature'', PyStr (ascii ''TIM'')),
      (ascii ''children'', PyList
         [PyDict [(ascii ''id'', PyStr (ascii ''8006E9A400'')), (ascii ''state'', PyInt 0),
                  (ascii ''relay_state'', PyInt 0), (ascii ''on_time'', PyInt 0)]])]"

definition strip1 :: SmartStrip where
  "strip1 =
     \<lparr>strip_host = ascii ''192.168.1.105'', num_children = 1,
      plugs =
        [0 \<mapsto> \<lparr>host = ascii ''192.168.1.105'', plug_context = PyStr (ascii ''8006E9A400'')\<rparr>]\<rparr>"

text \<open>\<open>sys_info["children"][i]["id"]\<close>: the id of the child at position \<open>i\<close>.\<close>

definition child_id :: "pydict \<Rightarrow> int \<Rightarrow> error + pyval" where
  "child_id si i =
     (case dict_get si (ascii ''children'') of
        Inl e \<Rightarrow> Inl e
      | Inr children \<Rightarrow>
          (case getitem_idx children i of
             Inl e \<Rightarrow> Inl e
           | Inr child \<Rightarrow> getitem_key child (ascii ''id'')))"

text \<open>The strip's proxies in the order of their outlets.\<close>

definition proxies :: "SmartStrip \<Rightarrow> SmartPlug list" where
  "proxies s = List.map_filter (plugs s) (range_py (num_children s))"

text \<open>
  A sample proxy operation for the examples: one command \<open>emeter.get_realtime\<close> scoped
  by the proxy's context, answered by the transport.
\<close>

definition query_emeter :: "transport \<Rightarrow> pyval proxy_op" where
  "query_emeter tr p w =
     query_helper tr (Some (plug_context p)) (ascii ''emeter'') (ascii ''get_realtime'') [] w"

section \<open>Auxiliary facts\<close>

lemma range_py_0: "range_py 0 = []"
  by (simp add: range_py_def)

lemma range_py_Suc: "range_py (Suc n) = range_py n @ [int n]"
  by (simp add: range_py_def)

lemmas range_py_simps = range_py_0 range_py_Suc eval_nat_numeral

lemma ascii_eq_iff [simp]: "(ascii s = ascii t) = (s = t)"
proof -
  have "inj (of_char :: char \<Rightarrow> nat)"
    by (rule injI) simp
  then show ?thesis
    by (simp add: ascii_def inj_map_eq_map)
qed

lemmas switch_state_defs = SWITCH_STATE_ON_def SWITCH_STATE_OFF_def SWITCH_STATE_UNKNOWN_def

lemma strip4_init: "SmartStrip_init (ascii ''192.168.1.105'') strip4_info = Inr strip4"
  by (simp add: SmartStrip_init_def strip4_info_def strip4_children_def strip4_def dict_get_def
      range_py_simps seq_index_def)

subsection \<open>Upper case\<close>

lemma upper_empty: "upper db [] = []"
  by (simp add: upper_def)

lemma upper_Cons: "upper db (c # s) = upper_cp db c @ upper db s"
  by (simp add: upper_def)

lemma upper_cp_ascii:
  "c < 128 \<Longrightarrow> upper_cp db c = (if 97 \<le> c \<and> c \<le> 122 then [c - 32] else [c])"
  by (simp add: upper_cp_def)

lemma upper_cp_nonempty: "upper_table_ok db \<Longrightarrow> upper_cp db c \<noteq> []"
  by (cases "c = 64256") (auto simp: upper_cp_def upper_table_ok_def)

lemma upper_cp_letter:
  assumes "upper_table_ok db" and "x = 79 \<or> x = 78 \<or> x = 70"
  shows "(upper_cp db c = [x]) = (c = x \<or> c = x + 32)"
proof (cases "c < 128")
  case True
  with assms(2) show ?thesis
    by (auto simp: upper_cp_def)
next
  case False
  with assms have "upper_cp db c \<noteq> [x]"
    by (cases "c = 64256") (auto simp: upper_cp_def upper_table_ok_def)
  with False assms(2) show ?thesis
    by auto
qed

lemma upper_cp_FF: "upper_table_ok db \<Longrightarrow> (upper_cp db c = [70, 70]) = (c = 64256)"
  by (cases "c = 64256") (auto simp: upper_cp_def upper_table_ok_def)

lemma upper_cp_no_part:
  assumes "upper_table_ok db"
  shows "upper_cp db c \<noteq> [79, 78]" and "upper_cp db c \<noteq> [79, 70]"
    and "upper_cp db c \<noteq> [79, 70, 70]"
  using assms by (cases "c = 64256"; auto simp: upper_cp_def upper_table_ok_def)+

lemma upper_Nil: "upper_table_ok db \<Longrightarrow> (upper db s = []) = (s = [])"
  by (cases s) (simp_all add: upper_def upper_cp_nonempty)

lemma upper_one:
  "upper_table_ok db \<Longrightarrow> (upper db s = [x]) = (\<exists>c. s = [c] \<and> upper_cp db c = [x])"
  by (cases s) (auto simp: upper_empty upper_Cons upper_Nil upper_cp_nonempty append_eq_Cons_conv)

lemma upper_two:
  "upper_table_ok db \<Longrightarrow>
     (upper db s = [x, y]) =
       ((\<exists>c. s = [c] \<and> upper_cp db c = [x, y]) \<or>
        (\<exists>c d. s = [c, d] \<and> upper_cp db c = [x] \<and> upper_cp db d = [y]))"
  by (cases s) (auto simp: upper_empty upper_Cons upper_Nil upper_one upper_cp_nonempty
      append_eq_Cons_conv)

lemma upper_three:
  "upper_table_ok db \<Longrightarrow>
     (upper db s = [x, y, z]) =
       ((\<exists>c. s = [c] \<and> upper_cp db c = [x, y, z]) \<or>
        (\<exists>c d. s = [c, d] \<and> upper_cp db c = [x, y] \<and> upper_cp db d = [z]) \<or>
        (\<exists>c d. s = [c, d] \<and> upper_cp db c = [x] \<and> upper_cp db d = [y, z]) \<or>
        (\<exists>c d e. s = [c, d, e] \<and> upper_cp db c = [x] \<and> upper_cp db d = [y] \<and>
           upper_cp db e = [z]))"
  by (cases s)
    (auto simp: upper_empty upper_Cons upper_Nil upper_one upper_two upper_cp_nonempty
      append_eq_Cons_conv)

lemma upper_ON:
  "upper_table_ok db \<Longrightarrow> (upper db s = SWITCH_STATE_ON) = is_on_token (PyStr s)"
  by (auto simp: SWITCH_STATE_ON_def ascii_def upper_two upper_cp_no_part upper_cp_letter
      is_on_token_def)

lemma upper_OFF:
  "upper_table_ok db \<Longrightarrow>
     (upper db s = SWITCH_STATE_OFF) = (is_off_token (PyStr s) \<or> is_off_ligature (PyStr s))"
  by (auto simp: SWITCH_STATE_OFF_def ascii_def upper_three upper_cp_no_part upper_cp_letter
      upper_cp_FF is_off_token_def is_off_ligature_def)

text \<open>The ASCII spellings are accepted whatever the database says.\<close>

lemma upper_on_token: "is_on_token (PyStr s) \<Longrightarrow> upper db s = SWITCH_STATE_ON"
  by (auto simp: is_on_token_def ascii_def upper_def upper_cp_def SWITCH_STATE_ON_def)

lemma upper_off_token: "is_off_token (PyStr s) \<Longrightarrow> upper db s = SWITCH_STATE_OFF"
  by (auto simp: is_off_token_def ascii_def upper_def upper_cp_def SWITCH_STATE_OFF_def)

lemma token_is_str: "is_on_token v \<or> is_off_token v \<Longrightarrow> \<exists>x. v = PyStr x"
  by (auto simp: is_on_token_def is_off_token_def)

lemma on_token_not_off: "is_on_token v \<Longrightarrow> \<not> is_off_token v"
  by (auto simp: is_on_token_def is_off_token_def ascii_def)

lemma on_off_differ: "SWITCH_STATE_ON \<noteq> SWITCH_STATE_OFF"
  by (simp add: SWITCH_STATE_ON_def SWITCH_STATE_OFF_def ascii_def)

lemma sample_db_ok: "upper_table_ok sample_db"
  by (simp add: upper_table_ok_def sample_db_def)

lemma query_helper_sends:
  "query_helper tr c (ascii ''system'') (ascii ''set_relay_state'') [(ascii ''state'', PyInt n)] w
     =
     (case tr (relay_command c n) of None \<Rightarrow> Inl SmartDeviceException | Some r \<Rightarrow> Inr r,
      w\<lparr>sent := sent w @ [relay_command c n]\<rparr>)"
  by (simp add: query_helper_def relay_command_def Let_def)

lemma SmartMultiPlug_turn_on_sends:
  "SmartMultiPlug_turn_on tr w =
     (sent_result tr (relay_command None 1), w\<lparr>sent := sent w @ [relay_command None 1]\<rparr>)"
  by (simp add: SmartMultiPlug_turn_on_def query_helper_sends sent_result_def split: option.splits)

lemma SmartMultiPlug_turn_off_sends:
  "SmartMultiPlug_turn_off tr w =
     (sent_result tr (relay_command None 0), w\<lparr>sent := sent w @ [relay_command None 0]\<rparr>)"
  by (simp add: SmartMultiPlug_turn_off_def query_helper_sends sent_result_def split: option.splits)

lemma SmartStrip_turn_on_all:
  "index < 0 \<Longrightarrow> SmartStrip_turn_on tr s index w =
     (sent_result tr (relay_command None 1), w\<lparr>sent := sent w @ [relay_command None 1]\<rparr>)"
  by (simp add: SmartStrip_turn_on_def query_helper_sends sent_result_def split: option.splits)

lemma SmartStrip_turn_off_all:
  "index < 0 \<Longrightarrow> SmartStrip_turn_off tr s index w =
     (sent_result tr (relay_command None 0), w\<lparr>sent := sent w @ [relay_command None 0]\<rparr>)"
  by (simp add: SmartStrip_turn_off_def query_helper_sends sent_result_def split: option.splits)

lemma SmartPlug_turn_on_sends:
  "SmartPlug_turn_on tr p w =
     (sent_result tr (relay_command (Some (plug_context p)) 1),
      w\<lparr>sent := sent w @ [relay_command (Some (plug_context p)) 1]\<rparr>)"
  by (simp add: SmartPlug_turn_on_def query_helper_sends sent_result_def split: option.splits)

lemma SmartPlug_turn_off_sends:
  "SmartPlug_turn_off tr p w =
     (sent_result tr (relay_command (Some (plug_context p)) 0),
      w\<lparr>sent := sent w @ [relay_command (Some (plug_context p)) 0]\<rparr>)"
  by (simp add: SmartPlug_turn_off_def query_helper_sends sent_result_def split: option.splits)

lemma SmartMultiPlug_state_setter_cases:
  assumes "upper_table_ok db"
  shows "SmartMultiPlug_state_setter db tr v w =
     (if is_on_token v then SmartMultiPlug_turn_on tr w
      else if is_off_token v \<or> is_off_ligature v then SmartMultiPlug_turn_off tr w
      else (Inl ValueError, w))"
proof (cases v)
  case (PyStr x)
  then show ?thesis
    by (simp add: SmartMultiPlug_state_setter_def upper_ON [OF assms] upper_OFF [OF assms])
qed (auto simp: SmartMultiPlug_state_setter_def is_on_token_def is_off_token_def is_off_ligature_def)

lemma SmartMultiPlug_state_setter_token:
  assumes "is_on_token v \<or> is_off_token v"
  shows "SmartMultiPlug_state_setter db tr v w =
     (if is_on_token v then SmartMultiPlug_turn_on tr w else SmartMultiPlug_turn_off tr w)"
proof -
  from assms obtain x where v: "v = PyStr x"
    using token_is_str by blast
  show ?thesis
  proof (cases "is_on_token v")
    case True
    with v show ?thesis
      by (simp add: SmartMultiPlug_state_setter_def upper_on_token)
  next
    case False
    with assms have "is_off_token v"
      by simp
    with v False show ?thesis
      by (simp add: SmartMultiPlug_state_setter_def upper_off_token on_off_differ [symmetric])
  qed
qed

lemma SmartStrip_state_setter_cases:
  assumes "upper_table_ok db"
  shows "SmartStrip_state_setter db tr s v w =
     (if is_on_token v then SmartStrip_turn_on tr s (- 1) w
      else if is_off_token v \<or> is_off_ligature v then SmartStrip_turn_off tr s (- 1) w
      else (Inl ValueError, w))"
proof (cases v)
  case (PyStr x)
  then show ?thesis
    by (simp add: SmartStrip_state_setter_def upper_ON [OF assms] upper_OFF [OF assms])
qed (auto simp: SmartStrip_state_setter_def is_on_token_def is_off_token_def is_off_ligature_def)

lemma SmartStrip_state_setter_token:
  assumes "is_on_token v \<or> is_off_token v"
  shows "SmartStrip_state_setter db tr s v w =
     (if is_on_token v then SmartStrip_turn_on tr s (- 1) w else SmartStrip_turn_off tr s (- 1) w)"
proof -
  from assms obtain x where v: "v = PyStr x"
    using token_is_str by blast
  show ?thesis
  proof (cases "is_on_token v")
    case True
    with v show ?thesis
      by (simp add: SmartStrip_state_setter_def upper_on_token)
  next
    case False
    with assms have "is_off_token v"
      by simp
    with v False show ?thesis
      by (simp add: SmartStrip_state_setter_def upper_off_token on_off_differ [symmetric])
  qed
qed

lemma SmartPlug_set_state_cases:
  assumes "upper_table_ok db"
  shows "SmartPlug_set_state db tr p v w =
     (if is_on_token v then SmartPlug_turn_on tr p w
      else if is_off_token v \<or> is_off_ligature v then SmartPlug_turn_off tr p w
      else (Inl ValueError, w))"
proof (cases v)
  case (PyStr x)
  then show ?thesis
    by (simp add: SmartPlug_set_state_def upper_ON [OF assms] upper_OFF [OF assms])
qed (auto simp: SmartPlug_set_state_def is_on_token_def is_off_token_def is_off_ligature_def)

lemma SmartPlug_set_state_token:
  assumes "is_on_token v \<or> is_off_token v"
  shows "SmartPlug_set_state db tr p v w =
     (if is_on_token v then SmartPlug_turn_on tr p w else SmartPlug_turn_off tr p w)"
proof -
  from assms obtain x where v: "v = PyStr x"
    using token_is_str by blast
  show ?thesis
  proof (cases "is_on_token v")
    case True
    with v show ?thesis
      by (simp add: SmartPlug_set_state_def upper_on_token)
  next
    case False
    with assms have "is_off_token v"
      by simp
    with v False show ?thesis
      by (simp add: SmartPlug_set_state_def upper_off_token on_off_differ [symmetric])
  qed
qed

subsection \<open>Reading integers\<close>

text \<open>
  \<open>int\<close> on short strings: leading zeros and surrounding blanks are accepted, the
  control character 28 is not blank, and beyond ASCII the database decides (160 is the
  no-break space, 1635 the Arabic-Indic digit three, 233 a letter).
\<close>

lemmas int_of_defs = int_of_str_def strip_def to_ascii_def is_space_def is_digit_def
  digit_val_def ascii_def sample_db_def

lemma int_of_examples:
  "int_of db (PyStr (ascii ''01'')) = Inr 1"
  "int_of db (PyStr (ascii '' 7'')) = Inr 7"
  "int_of db (PyStr (ascii ''-7'')) = Inr (- 7)"
  "int_of db (PyStr (ascii ''A4'')) = Inl ValueError"
  "int_of db (PyStr [28, 49]) = Inl ValueError"
  "int_of sample_db (PyStr [160, 49]) = Inr 1"
  "int_of sample_db (PyStr [1635]) = Inr 3"
  "int_of sample_db (PyStr [233, 49]) = Inl ValueError"
  by (simp_all add: int_of_defs)

subsection \<open>Construction of the strip\<close>

lemma strip1_init: "SmartStrip_init (ascii ''192.168.1.105'') strip1_info = Inr strip1"
  by (simp add: SmartStrip_init_def strip1_info_def strip1_def dict_get_def
      range_py_simps seq_index_def)

lemma init_loop_append:
  "init_loop h ch (ks @ ks') ps =
     (case init_loop h ch ks ps of Inl e \<Rightarrow> Inl e | Inr ps' \<Rightarrow> init_loop h ch ks' ps')"
  by (induction ks arbitrary: ps) (auto split: sum.splits)

lemma init_loop_range:
  "init_loop h ch (range_py n) Map.empty = Inr ps \<Longrightarrow>
     (\<forall>k. (ps k = None) = (\<not> (0 \<le> k \<and> k < int n))) \<and>
     (\<forall>i<n. \<exists>child cid. getitem_idx ch (int i) = Inr child \<and>
        getitem_key child (ascii ''id'') = Inr cid \<and> ps (int i) = Some \<lparr>host = h, plug_context = cid\<rparr>)"
proof (induction n arbitrary: ps)
  case 0
  then show ?case by (auto simp: range_py_0)
next
  case (Suc n)
  from Suc.prems obtain ps' where
    ps': "init_loop h ch (range_py n) Map.empty = Inr ps'" and
    last: "init_loop h ch [int n] ps' = Inr ps"
    by (auto simp: range_py_Suc init_loop_append split: sum.splits)
  from last obtain child cid where
    child: "getitem_idx ch (int n) = Inr child" and
    cid: "getitem_key child (ascii ''id'') = Inr cid" and
    ps: "ps = ps'(int n \<mapsto> \<lparr>host = h, plug_context = cid\<rparr>)"
    by (auto split: sum.splits)
  note IH = Suc.IH [OF ps']
  have none: "\<forall>k. (ps k = None) = (\<not> (0 \<le> k \<and> k < int (Suc n)))"
    using IH ps by auto
  have some: "\<exists>child cid. getitem_idx ch (int i) = Inr child \<and>
        getitem_key child (ascii ''id'') = Inr cid \<and> ps (int i) = Some \<lparr>host = h, plug_context = cid\<rparr>"
    if "i < Suc n" for i
  proof (cases "i = n")
    case True
    then show ?thesis using child cid ps by simp
  next
    case False
    with that have "i < n" by simp
    with IH show ?thesis using ps False by auto
  qed
  from none some show ?case by blast
qed

lemma init_plugs_None:
  assumes "SmartStrip_init h si = Inr s"
  shows "(plugs s k = None) = (\<not> (0 \<le> k \<and> k < int (num_children s)))"
proof -
  from assms obtain ch where
    "init_loop h ch (range_py (num_children s)) Map.empty = Inr (plugs s)"
    by (auto simp: SmartStrip_init_def split: sum.splits)
  from init_loop_range [OF this] show ?thesis by blast
qed

lemma init_plugs_Some:
  assumes "SmartStrip_init h si = Inr s" and "0 \<le> k" and "k < int (num_children s)"
  shows "\<exists>cid. child_id si k = Inr cid \<and> plugs s k = Some \<lparr>host = h, plug_context = cid\<rparr>"
proof -
  from assms(1) obtain ch where
    ch: "dict_get si (ascii ''children'') = Inr ch" and
    loop: "init_loop h ch (range_py (num_children s)) Map.empty = Inr (plugs s)"
    by (auto simp: SmartStrip_init_def split: sum.splits)
  from assms(2,3) have "nat k < num_children s" and k: "int (nat k) = k"
    by simp_all
  with init_loop_range [OF loop] obtain child cid where
    "getitem_idx ch k = Inr child" "getitem_key child (ascii ''id'') = Inr cid"
    "plugs s k = Some \<lparr>host = h, plug_context = cid\<rparr>"
    by metis
  with ch show ?thesis
    by (simp add: child_id_def)
qed

lemma raise_for_index_iff:
  "SmartStrip_init h si = Inr s \<Longrightarrow>
     raise_for_index s k = (if 0 \<le> k \<and> k < int (num_children s) then Inr () else Inl SmartStripException)"
  by (simp add: raise_for_index_def init_plugs_None)

subsection \<open>The loops over the outlets\<close>

lemma is_on_loop_append:
  "is_on_loop ch (ks @ ks') m =
     (case is_on_loop ch ks m of Inl e \<Rightarrow> Inl e | Inr m' \<Rightarrow> is_on_loop ch ks' m')"
  by (induction ks arbitrary: m) (auto split: sum.splits)

lemma is_on_loop_range:
  "n \<le> length cs \<Longrightarrow> \<forall>i<n. getitem_key (cs ! i) (ascii ''relay_state'') = Inr (rs i) \<Longrightarrow>
     is_on_loop (PyList cs) (range_py n) Map.empty =
       Inr (\<lambda>k. if 0 \<le> k \<and> k < int n then Some (bool_of (rs (nat k))) else None)"
proof (induction n)
  case 0
  then show ?case by (auto simp: range_py_0 fun_eq_iff)
next
  case (Suc n)
  then have IH: "is_on_loop (PyList cs) (range_py n) Map.empty =
       Inr (\<lambda>k. if 0 \<le> k \<and> k < int n then Some (bool_of (rs (nat k))) else None)"
    by simp
  have child: "seq_index cs (int n) = Inr (cs ! n)"
    using Suc.prems(1) by (simp add: seq_index_def)
  have field: "getitem_key (cs ! n) (ascii ''relay_state'') = Inr (rs n)"
    using Suc.prems(2) by simp
  have "(\<lambda>k. if 0 \<le> k \<and> k < int n then Some (bool_of (rs (nat k))) else None)
          (int n \<mapsto> bool_of (rs n)) =
        (\<lambda>k. if 0 \<le> k \<and> k < int (Suc n) then Some (bool_of (rs (nat k))) else None)"
    by (auto simp: fun_eq_iff)
  then show ?case
    by (simp add: range_py_Suc is_on_loop_append IH child field)
qed

lemma on_since_loop_append:
  "on_since_loop ch (ks @ ks') m =
     (case on_since_loop ch ks m of Inl e \<Rightarrow> Inl e | Inr m' \<Rightarrow> on_since_loop ch ks' m')"
  by (induction ks arbitrary: m) (auto split: sum.splits)

lemma on_since_loop_range:
  "n \<le> length cs \<Longrightarrow> \<forall>i<n. getitem_key (cs ! i) (ascii ''on_time'') = Inr (ot i) \<Longrightarrow>
     on_since_loop (PyList cs) (range_py n) Map.empty =
       Inr (\<lambda>k. if 0 \<le> k \<and> k < int n then Some (ot (nat k)) else None)"
proof (induction n)
  case 0
  then show ?case by (auto simp: range_py_0 fun_eq_iff)
next
  case (Suc n)
  then have IH: "on_since_loop (PyList cs) (range_py n) Map.empty =
       Inr (\<lambda>k. if 0 \<le> k \<and> k < int n then Some (ot (nat k)) else None)"
    by simp
  have child: "seq_index cs (int n) = Inr (cs ! n)"
    using Suc.prems(1) by (simp add: seq_index_def)
  have field: "getitem_key (cs ! n) (ascii ''on_time'') = Inr (ot n)"
    using Suc.prems(2) by simp
  have "(\<lambda>k. if 0 \<le> k \<and> k < int n then Some (ot (nat k)) else None)(int n \<mapsto> ot n) =
        (\<lambda>k. if 0 \<le> k \<and> k < int (Suc n) then Some (ot (nat k)) else None)"
    by (auto simp: fun_eq_iff)
  then show ?case
    by (simp add: range_py_Suc on_since_loop_append IH child field)
qed

lemma emeter_loop_in_turn:
  "\<forall>k\<in>set ks. ps k \<noteq> None \<Longrightarrow>
     emeter_loop f ps ks m w =
       (case in_turn f (List.map_filter ps ks) w of
          (Inl e, w') \<Rightarrow> (Inl e, w')
        | (Inr rs, w') \<Rightarrow> (Inr (m(ks [\<mapsto>] rs)), w'))"
proof (induction ks arbitrary: m w)
  case Nil
  then show ?case by simp
next
  case (Cons k ks)
  then obtain p where p: "ps k = Some p" by auto
  from Cons.prems have rest: "\<forall>k\<in>set ks. ps k \<noteq> None" by simp
  show ?case
    by (simp add: p Cons.IH [OF rest] split: prod.splits sum.splits)
qed

lemma in_turn_length:
  "in_turn f ps w = (Inr rs, w') \<Longrightarrow> length rs = length ps"
  by (induction ps arbitrary: w rs) (auto split: prod.splits sum.splits)

lemma init_range_plugs:
  "SmartStrip_init h si = Inr s \<Longrightarrow> \<forall>k\<in>set (range_py (num_children s)). plugs s k \<noteq> None"
  by (auto simp: init_plugs_None range_py_def)

lemma has_emeter_feature:
  "dict_get si (ascii ''feature'') = Inr (PyStr f) \<Longrightarrow>
     has_emeter marker si = Inr (marker \<in> set (split_str 58 f))"
  by (simp add: has_emeter_def)

lemma strip4_proxies:
  "proxies strip4 =
     [\<lparr>host = ascii ''192.168.1.105'', plug_context = PyStr (ascii ''8006E9A400'')\<rparr>,
      \<lparr>host = ascii ''192.168.1.105'', plug_context = PyStr (ascii ''8006E9A401'')\<rparr>,
      \<lparr>host = ascii ''192.168.1.105'', plug_context = PyStr (ascii ''8006E9A402'')\<rparr>,
      \<lparr>host = ascii ''192.168.1.105'', plug_context = PyStr (ascii ''8006E9A403'')\<rparr>]"
  by (simp add: proxies_def strip4_def range_py_simps)

section \<open>The state write\<close>

text \<open>
  C6. On the single-relay device and on the strip, writing a state that is not a string
  matching \<open>ON\<close> or \<open>OFF\<close> without regard to case fails with \<open>ValueError\<close> and leaves
  the log as it was: no command reaches the transport. A value that matches \<open>ON\<close>
  sends the one command \<open>set_relay_state\<close> with state 1, a value that matches \<open>OFF\<close>
  the one with state 0, and the outcome is the transport's. The strings that match are
  the four ASCII spellings of \<open>on\<close>, the eight of \<open>off\<close>, and \<open>o\<close> or \<open>O\<close> followed
  by the ligature FB00; the value ranges over all Python values and all strings of code
  points.
\<close>

theorem state_setter_validates:
  assumes "upper_table_ok db"
  shows
    "(\<not> is_on_token v \<and> \<not> is_off_token v \<and> \<not> is_off_ligature v \<longrightarrow>
        SmartMultiPlug_state_setter db tr v w = (Inl ValueError, w) \<and>
        SmartStrip_state_setter db tr s v w = (Inl ValueError, w)) \<and>
     (is_on_token v \<longrightarrow>
        SmartMultiPlug_state_setter db tr v w =
          (sent_result tr (relay_command None 1), w\<lparr>sent := sent w @ [relay_command None 1]\<rparr>) \<and>
        SmartStrip_state_setter db tr s v w =
          (sent_result tr (relay_command None 1), w\<lparr>sent := sent w @ [relay_command None 1]\<rparr>)) \<and>
     (is_off_token v \<or> is_off_ligature v \<longrightarrow>
        SmartMultiPlug_state_setter db tr v w =
          (sent_result tr (relay_command None 0), w\<lparr>sent := sent w @ [relay_command None 0]\<rparr>) \<and>
        SmartStrip_state_setter db tr s v w =
          (sent_result tr (relay_command None 0), w\<lparr>sent := sent w @ [relay_command None 0]\<rparr>))"
proof -
  have off: "\<not> is_on_token v" if "is_off_token v \<or> is_off_ligature v"
    using that by (auto simp: is_on_token_def is_off_token_def is_off_ligature_def ascii_def)
  show ?thesis
    using off
    by (auto simp: SmartMultiPlug_state_setter_cases [OF assms]
        SmartStrip_state_setter_cases [OF assms] SmartMultiPlug_turn_on_sends
        SmartMultiPlug_turn_off_sends SmartStrip_turn_on_all SmartStrip_turn_off_all)
qed

theorem state_setter_validates_witness:
  "SmartMultiPlug_state_setter sample_db accepting (PyStr (ascii ''UNKNOWN'')) world0 =
     (Inl ValueError, world0) \<and>
   SmartStrip_state_setter sample_db accepting strip4 (PyStr (ascii ''UNKNOWN'')) world0 =
     (Inl ValueError, world0) \<and>
   SmartMultiPlug_state_setter sample_db accepting (PyInt 1) world0 = (Inl ValueError, world0) \<and>
   SmartStrip_state_setter sample_db accepting strip4 (PyStr []) world0 =
     (Inl ValueError, world0) \<and>
   SmartMultiPlug_state_setter sample_db accepting (PyStr (ascii ''oN'')) world0 =
     (Inr (), \<lparr>sent = [relay_command None 1], warned = []\<rparr>) \<and>
   SmartStrip_state_setter sample_db accepting strip4 (PyStr (ascii ''Off'')) world0 =
     (Inr (), \<lparr>sent = [relay_command None 0], warned = []\<rparr>) \<and>
   SmartMultiPlug_state_setter sample_db accepting (PyStr [111, 64256]) world0 =
     (Inr (), \<lparr>sent = [relay_command None 0], warned = []\<rparr>)"
  using
    state_setter_validates [OF sample_db_ok, where v = "PyStr (ascii ''UNKNOWN'')"
      and tr = accepting and w = world0 and s = strip4]
    state_setter_validates [OF sample_db_ok, where v = "PyInt 1" and tr = accepting
      and w = world0 and s = strip4]
    state_setter_validates [OF sample_db_ok, where v = "PyStr []" and tr = accepting
      and w = world0 and s = strip4]
    state_setter_validates [OF sample_db_ok, where v = "PyStr (ascii ''oN'')"
      and tr = accepting and w = world0 and s = strip4]
    state_setter_validates [OF sample_db_ok, where v = "PyStr (ascii ''Off'')"
      and tr = accepting and w = world0 and s = strip4]
    state_setter_validates [OF sample_db_ok, where v = "PyStr [111, 64256]"
      and tr = accepting and w = world0 and s = strip4]
  by (simp add: is_on_token_def is_off_token_def is_off_ligature_def ascii_def sent_result_def
      accepting_def world0_def)

section \<open>The state read\<close>

lemma SmartMultiPlug_state_decodes:
  "dict_get si (ascii ''relay_state'') = Inr (PyInt v) \<Longrightarrow>
     SmartMultiPlug_state si w =
       (if v = 0 then (Inr (ascii ''OFF''), w)
        else if v = 1 then (Inr (ascii ''ON''), w)
        else (Inr (ascii ''UNKNOWN''), w\<lparr>warned := warned w @ [PyInt v]\<rparr>))"
  by (simp add: SmartMultiPlug_state_def switch_state_defs warning_def)

text \<open>
  C1. The strip's state read on the four-outlet strip: outlets 0 and 2, whose relay
  field is 0, come out as \<open>UNKNOWN\<close> with a warning each, not as \<open>OFF\<close>.
\<close>

theorem strip_state_off_reads_unknown:
  "SmartStrip_state strip4 strip4_info world0 =
     (Inr [0 \<mapsto> (ascii ''UNKNOWN''), 1 \<mapsto> (ascii ''ON''), 2 \<mapsto> (ascii ''UNKNOWN''), 3 \<mapsto> (ascii ''UNKNOWN'')],
      \<lparr>sent = [], warned = [PyInt 0, PyInt 0, PyInt 2]\<rparr>)"
  by (simp add: SmartStrip_state_def strip4_info_def strip4_children_def strip4_def dict_get_def
      range_py_simps seq_index_def switch_state_defs warning_def world0_def)

text \<open>
  C3. On the same raw relay value 0 the single-relay device reads \<open>OFF\<close> and the strip
  reads \<open>UNKNOWN\<close> for its outlet.
\<close>

theorem state_decoding_differs_at_zero:
  "SmartMultiPlug_state strip1_info world0 = (Inr (ascii ''OFF''), world0) \<and>
   SmartStrip_state strip1 strip1_info world0 =
     (Inr [0 \<mapsto> (ascii ''UNKNOWN'')], \<lparr>sent = [], warned = [PyInt 0]\<rparr>)"
  by (simp add: SmartMultiPlug_state_def SmartStrip_state_def strip1_info_def strip1_def
      dict_get_def range_py_simps seq_index_def switch_state_defs warning_def world0_def)

section \<open>On-time\<close>

text \<open>
  C4. On a device with two child records, \<open>on_since(1)\<close> subtracts the hour of child 0,
  not the minute of child 1, although the lookup for index 1 finds child 1.
\<close>

theorem on_since_reads_child_0:
  "SmartMultiPlug_on_since db 63900000000000000 plug2_info 1 =
     Inr (63900000000000000 - 3600 * 1000000) \<and>
   get_idx_info db plug2_info 1 =
     Inr (PyDict [(ascii ''id'', PyStr (ascii ''8006E9A401'')), (ascii ''on_time'', PyInt 60)])"
  by code_simp

text \<open>Without a child of index 0 the call ends in the \<open>TypeError\<close> of subscripting \<open>None\<close>.\<close>

lemma on_since_without_child_0:
  "SmartMultiPlug_on_since db 63900000000000000
     [(ascii ''children'', PyList [PyDict [(ascii ''id'', PyStr (ascii ''8006E9A401'')), (ascii ''on_time'', PyInt 60)]])] 1 =
   Inl TypeError"
  by code_simp

text \<open>
  C7. With index -1 the strip's \<open>on_since\<close> returns, for every outlet position, the
  child's \<open>on_time\<close> field as it stands in the record, and sends nothing. With an index
  of an outlet it returns what the \<open>on_since\<close> of that outlet's proxy returns, the proxy
  being the one built with the id of the child at that position.
\<close>

theorem strip_on_since_dispatch:
  assumes "SmartStrip_init h si0 = Inr s"
  shows "(dict_get si (ascii ''children'') = Inr (PyList cs) \<and> num_children s = length cs \<and>
          (\<forall>i<length cs. getitem_key (cs ! i) (ascii ''on_time'') = Inr (ot i)) \<longrightarrow>
            SmartStrip_on_since f s si (- 1) w =
              (Inr (Aggregate (\<lambda>k. if 0 \<le> k \<and> k < int (length cs) then Some (ot (nat k)) else None)),
               w)) \<and>
         (0 \<le> index \<and> index < int (num_children s) \<and> child_id si0 index = Inr cid \<longrightarrow>
            SmartStrip_on_since f s si index w =
              (case f \<lparr>host = h, plug_context = cid\<rparr> w of
                 (Inl e, w') \<Rightarrow> (Inl e, w')
               | (Inr r, w') \<Rightarrow> (Inr (Delegated r), w')))"
proof (intro conjI impI)
  assume a: "dict_get si (ascii ''children'') = Inr (PyList cs) \<and> num_children s = length cs \<and>
          (\<forall>i<length cs. getitem_key (cs ! i) (ascii ''on_time'') = Inr (ot i))"
  then have "on_since_loop (PyList cs) (range_py (length cs)) Map.empty =
       Inr (\<lambda>k. if 0 \<le> k \<and> k < int (length cs) then Some (ot (nat k)) else None)"
    by (intro on_since_loop_range) simp_all
  with a show "SmartStrip_on_since f s si (- 1) w =
      (Inr (Aggregate (\<lambda>k. if 0 \<le> k \<and> k < int (length cs) then Some (ot (nat k)) else None)), w)"
    by (simp add: SmartStrip_on_since_def)
next
  assume b: "0 \<le> index \<and> index < int (num_children s) \<and> child_id si0 index = Inr cid"
  with init_plugs_Some [OF assms, of index]
  have "plugs s index = Some \<lparr>host = h, plug_context = cid\<rparr>"
    by auto
  with b show "SmartStrip_on_since f s si index w =
      (case f \<lparr>host = h, plug_context = cid\<rparr> w of
         (Inl e, w') \<Rightarrow> (Inl e, w')
       | (Inr r, w') \<Rightarrow> (Inr (Delegated r), w'))"
    by (simp add: SmartStrip_on_since_def raise_for_index_def)
qed

theorem strip_on_since_dispatch_witness:
  "SmartStrip_on_since (\<lambda>p w. (Inr (plug_context p), w)) strip4 strip4_info (- 1) world0 =
     (Inr (Aggregate
        (\<lambda>k. if 0 \<le> k \<and> k < 4 then Some ([PyInt 0, PyInt 120, PyInt 0, PyInt 7] ! nat k) else None)),
      world0) \<and>
   SmartStrip_on_since (\<lambda>p w. (Inr (plug_context p), w)) strip4 strip4_info 2 world0 =
     (Inr (Delegated (PyStr (ascii ''8006E9A402''))), world0)"
  using strip_on_since_dispatch [OF strip4_init, where si = strip4_info and cs = strip4_children
      and ot = "\<lambda>i. [PyInt 0, PyInt 120, PyInt 0, PyInt 7] ! i" and index = 2
      and cid = "PyStr (ascii ''8006E9A402'')" and f = "\<lambda>p w. (Inr (plug_context p), w)" and w = world0]
  by (simp add: strip4_info_def strip4_children_def strip4_def dict_get_def child_id_def
      seq_index_def All_less_Suc)

section \<open>Whether the relay is on\<close>

text \<open>
  C9. On the single-relay device \<open>is_on\<close> is true exactly when the raw relay value is
  not 0: a value other than 0 and 1, which the state read decodes as \<open>UNKNOWN\<close>, reads
  as on. With index -1 the strip's \<open>is_on\<close> returns, for every outlet position, whether
  that child's \<open>relay_state\<close> field is not 0.
\<close>

theorem is_on_reads_nonzero:
  "(dict_get si (ascii ''relay_state'') = Inr (PyInt v) \<longrightarrow>
      SmartMultiPlug_is_on si = Inr (v \<noteq> 0) \<and>
      (v \<noteq> 0 \<and> v \<noteq> 1 \<longrightarrow>
         fst (SmartMultiPlug_state si w) = Inr SWITCH_STATE_UNKNOWN \<and>
         SmartMultiPlug_is_on si = Inr True)) \<and>
   (dict_get si (ascii ''children'') = Inr (PyList cs) \<and> num_children s = length cs \<and>
    (\<forall>i<length cs. getitem_key (cs ! i) (ascii ''relay_state'') = Inr (PyInt (rs i))) \<longrightarrow>
      SmartStrip_is_on f s si (- 1) w =
        (Inr (Aggregate (\<lambda>k. if 0 \<le> k \<and> k < int (length cs) then Some (rs (nat k) \<noteq> 0) else None)),
         w))"
proof (intro conjI impI)
  assume a: "dict_get si (ascii ''children'') = Inr (PyList cs) \<and> num_children s = length cs \<and>
    (\<forall>i<length cs. getitem_key (cs ! i) (ascii ''relay_state'') = Inr (PyInt (rs i)))"
  then have "is_on_loop (PyList cs) (range_py (length cs)) Map.empty =
       Inr (\<lambda>k. if 0 \<le> k \<and> k < int (length cs)
                then Some (bool_of ((\<lambda>i. PyInt (rs i)) (nat k))) else None)"
    by (intro is_on_loop_range) simp_all
  with a show "SmartStrip_is_on f s si (- 1) w =
      (Inr (Aggregate (\<lambda>k. if 0 \<le> k \<and> k < int (length cs) then Some (rs (nat k) \<noteq> 0) else None)), w)"
    by (simp add: SmartStrip_is_on_def cong: if_cong)
qed (simp_all add: SmartMultiPlug_is_on_def SmartMultiPlug_state_def)

theorem is_on_reads_nonzero_witness:
  "SmartMultiPlug_is_on [(ascii ''relay_state'', PyInt 2)] = Inr True \<and>
   fst (SmartMultiPlug_state [(ascii ''relay_state'', PyInt 2)] world0) = Inr (ascii ''UNKNOWN'') \<and>
   SmartMultiPlug_is_on strip4_info = Inr False \<and>
   SmartStrip_is_on (\<lambda>p w. (Inr (), w)) strip4 strip4_info (- 1) world0 =
     (Inr (Aggregate (\<lambda>k. if 0 \<le> k \<and> k < 4 then Some ([0, 1, 0, 2] ! nat k \<noteq> (0::int)) else None)),
      world0)"
  using is_on_reads_nonzero [where si = "[(ascii ''relay_state'', PyInt 2)]" and v = 2 and w = world0
      and cs = "[]" and s = strip4]
    is_on_reads_nonzero [where si = strip4_info and v = 0 and w = world0 and cs = strip4_children
      and s = strip4 and rs = "\<lambda>i. [0, 1, 0, 2] ! i" and f = "\<lambda>p w. (Inr (), w)"]
  by (simp add: strip4_info_def strip4_children_def strip4_def dict_get_def All_less_Suc SWITCH_STATE_UNKNOWN_def)

section \<open>Energy readings\<close>

text \<open>
  C8. When the feature field, split on the colon, lacks the energy-meter marker,
  \<open>get_emeter_realtime\<close> returns \<open>None\<close> for every index and leaves the log as it was.
  When the marker is there, index -1 delegates to the proxies in the order of their
  outlets and returns the mapping from outlet to reading, or the first failure.
\<close>

theorem get_emeter_realtime_by_feature:
  assumes "dict_get si (ascii ''feature'') = Inr (PyStr feature)"
  shows "(marker \<notin> set (split_str 58 feature) \<longrightarrow>
            SmartStrip_get_emeter_realtime marker f s si (- 1) w = (Inr None, w) \<and>
            SmartStrip_get_emeter_realtime marker f s si index w = (Inr None, w)) \<and>
         (marker \<in> set (split_str 58 feature) \<and> SmartStrip_init h si0 = Inr s \<longrightarrow>
            length (proxies s) = num_children s \<and>
            SmartStrip_get_emeter_realtime marker f s si (- 1) w =
              (case in_turn f (proxies s) w of
                 (Inl e, w') \<Rightarrow> (Inl e, w')
               | (Inr rs, w') \<Rightarrow>
                   (Inr (Some (Aggregate (Map.empty(range_py (num_children s) [\<mapsto>] rs)))), w')))"
proof (intro conjI impI)
  assume b: "marker \<in> set (split_str 58 feature) \<and> SmartStrip_init h si0 = Inr s"
  then have all: "\<forall>k\<in>set (range_py (num_children s)). plugs s k \<noteq> None"
    using init_range_plugs by blast
  then show "length (proxies s) = num_children s"
    by (simp add: proxies_def map_filter_def range_py_def filter_id_conv)
  from b show "SmartStrip_get_emeter_realtime marker f s si (- 1) w =
      (case in_turn f (proxies s) w of
         (Inl e, w') \<Rightarrow> (Inl e, w')
       | (Inr rs, w') \<Rightarrow>
           (Inr (Some (Aggregate (Map.empty(range_py (num_children s) [\<mapsto>] rs)))), w'))"
    by (simp add: SmartStrip_get_emeter_realtime_def has_emeter_feature [OF assms]
        emeter_loop_in_turn [OF all] proxies_def split: prod.splits sum.splits)
qed (simp_all add: SmartStrip_get_emeter_realtime_def has_emeter_feature [OF assms])

theorem get_emeter_realtime_by_feature_witness:
  "SmartStrip_get_emeter_realtime (ascii ''ENE'') (query_emeter accepting) strip4 strip4_info (- 1) world0 =
     (Inr None, world0) \<and>
   SmartStrip_get_emeter_realtime (ascii ''ENE'') (query_emeter accepting) strip4 strip4_info 2 world0 =
     (Inr None, world0) \<and>
   SmartStrip_get_emeter_realtime (ascii ''ENE'') (query_emeter accepting) strip4 strip4_info_ene (- 1) world0 =
     (Inr (Some (Aggregate [0 \<mapsto> PyNone, 1 \<mapsto> PyNone, 2 \<mapsto> PyNone, 3 \<mapsto> PyNone])),
      \<lparr>sent =
         [\<lparr>ctx = Some (PyStr (ascii ''8006E9A400'')), target = ascii ''emeter'', cmd = ascii ''get_realtime'', arg = []\<rparr>,
          \<lparr>ctx = Some (PyStr (ascii ''8006E9A401'')), target = ascii ''emeter'', cmd = ascii ''get_realtime'', arg = []\<rparr>,
          \<lparr>ctx = Some (PyStr (ascii ''8006E9A402'')), target = ascii ''emeter'', cmd = ascii ''get_realtime'', arg = []\<rparr>,
          \<lparr>ctx = Some (PyStr (ascii ''8006E9A403'')), target = ascii ''emeter'', cmd = ascii ''get_realtime'', arg = []\<rparr>],
       warned = []\<rparr>)"
proof -
  have f1: "dict_get strip4_info (ascii ''feature'') = Inr (PyStr (ascii ''TIM''))"
    and f2: "dict_get strip4_info_ene (ascii ''feature'') = Inr (PyStr (ascii ''TIM:ENE''))"
    by (simp_all add: strip4_info_def strip4_info_ene_def dict_get_def)
  have m1: "ascii ''ENE'' \<notin> set (split_str 58 (ascii ''TIM''))"
    and m2: "ascii ''ENE'' \<in> set (split_str 58 (ascii ''TIM:ENE''))"
    by (simp_all add: ascii_def)
  have num: "num_children strip4 = 4"
    by (simp add: strip4_def)
  have run: "in_turn (query_emeter accepting) (proxies strip4) world0 =
      (Inr [PyNone, PyNone, PyNone, PyNone],
       \<lparr>sent =
          [\<lparr>ctx = Some (PyStr (ascii ''8006E9A400'')), target = ascii ''emeter'', cmd = ascii ''get_realtime'', arg = []\<rparr>,
           \<lparr>ctx = Some (PyStr (ascii ''8006E9A401'')), target = ascii ''emeter'', cmd = ascii ''get_realtime'', arg = []\<rparr>,
           \<lparr>ctx = Some (PyStr (ascii ''8006E9A402'')), target = ascii ''emeter'', cmd = ascii ''get_realtime'', arg = []\<rparr>,
           \<lparr>ctx = Some (PyStr (ascii ''8006E9A403'')), target = ascii ''emeter'', cmd = ascii ''get_realtime'', arg = []\<rparr>],
        warned = []\<rparr>)"
    by (simp add: strip4_proxies query_emeter_def query_helper_def accepting_def world0_def)
  have upd: "Map.empty(range_py 4 [\<mapsto>] [PyNone, PyNone, PyNone, PyNone]) =
      [0 \<mapsto> PyNone, 1 \<mapsto> PyNone, 2 \<mapsto> PyNone, 3 \<mapsto> PyNone]"
    by (simp add: range_py_simps)
  from m1 get_emeter_realtime_by_feature [OF f1, where marker = "ascii ''ENE''"
      and f = "query_emeter accepting" and s = strip4 and w = world0 and index = 2]
  have none: "SmartStrip_get_emeter_realtime (ascii ''ENE'') (query_emeter accepting) strip4 strip4_info
        (- 1) world0 = (Inr None, world0) \<and>
      SmartStrip_get_emeter_realtime (ascii ''ENE'') (query_emeter accepting) strip4 strip4_info
        2 world0 = (Inr None, world0)"
    by simp
  from m2 strip4_init get_emeter_realtime_by_feature [OF f2, where marker = "ascii ''ENE''"
      and f = "query_emeter accepting" and s = strip4 and w = world0
      and h = "ascii ''192.168.1.105''" and ?si0.0 = strip4_info]
  have "SmartStrip_get_emeter_realtime (ascii ''ENE'') (query_emeter accepting) strip4 strip4_info_ene
        (- 1) world0 =
      (case in_turn (query_emeter accepting) (proxies strip4) world0 of
         (Inl e, w') \<Rightarrow> (Inl e, w')
       | (Inr rs, w') \<Rightarrow>
           (Inr (Some (Aggregate (Map.empty(range_py (num_children strip4) [\<mapsto>] rs)))), w'))"
    by simp
  with none show ?thesis
    by (simp add: run num upd)
qed

text \<open>
  C10. On a strip without the energy-meter marker \<open>get_emeter_realtime\<close> returns
  \<open>None\<close> for every index, also for one that \<open>raise_for_index\<close> rejects: the
  capability is checked first, and no \<open>SmartStripException\<close> is raised.
\<close>

theorem get_emeter_realtime_checks_capability_first:
  assumes "has_emeter marker si = Inr False"
  shows "SmartStrip_get_emeter_realtime marker f s si index w = (Inr None, w) \<and>
         fst (SmartStrip_get_emeter_realtime marker f s si index w) \<noteq> Inl SmartStripException"
  using assms by (simp add: SmartStrip_get_emeter_realtime_def)

theorem get_emeter_realtime_checks_capability_first_witness:
  "has_emeter (ascii ''ENE'') strip4_info = Inr False \<and>
   raise_for_index strip4 4 = Inl SmartStripException \<and>
   SmartStrip_get_emeter_realtime (ascii ''ENE'') (query_emeter accepting) strip4 strip4_info 4 world0 =
     (Inr None, world0) \<and>
   raise_for_index strip4 (- 2) = Inl SmartStripException \<and>
   SmartStrip_get_emeter_realtime (ascii ''ENE'') (query_emeter accepting) strip4 strip4_info (- 2) world0 =
     (Inr None, world0)"
proof -
  have h: "has_emeter (ascii ''ENE'') strip4_info = Inr False"
    by (simp add: has_emeter_def strip4_info_def dict_get_def ascii_def)
  have r: "raise_for_index strip4 4 = Inl SmartStripException"
    "raise_for_index strip4 (- 2) = Inl SmartStripException"
    by (simp_all add: raise_for_index_def strip4_def)
  show ?thesis
    using h r
      get_emeter_realtime_checks_capability_first [OF h, where f = "query_emeter accepting"
        and s = strip4 and index = 4 and w = world0]
      get_emeter_realtime_checks_capability_first [OF h, where f = "query_emeter accepting"
        and s = strip4 and index = "- 2" and w = world0]
    by simp
qed

section \<open>Addressing outlets\<close>

text \<open>
  C5. On a constructed strip, \<open>set_state\<close> with index -1 and a value matching \<open>ON\<close> or
  \<open>OFF\<close> sends exactly one command, \<open>set_relay_state\<close> with no context, so to the strip
  itself and through no proxy. With the index of an outlet it sends exactly one command,
  scoped by the id of the child at that position, and nothing else.
\<close>

theorem set_state_sends_one_command:
  assumes "SmartStrip_init h si0 = Inr s"
  shows "(is_on_token v \<longrightarrow>
            SmartStrip_set_state db tr s v (- 1) w =
              (sent_result tr (relay_command None 1),
               w\<lparr>sent := sent w @ [relay_command None 1]\<rparr>)) \<and>
         (is_off_token v \<longrightarrow>
            SmartStrip_set_state db tr s v (- 1) w =
              (sent_result tr (relay_command None 0),
               w\<lparr>sent := sent w @ [relay_command None 0]\<rparr>)) \<and>
         (0 \<le> index \<and> index < int (num_children s) \<and> child_id si0 index = Inr cid \<longrightarrow>
            (is_on_token v \<longrightarrow>
               SmartStrip_set_state db tr s v index w =
                 (sent_result tr (relay_command (Some cid) 1),
                  w\<lparr>sent := sent w @ [relay_command (Some cid) 1]\<rparr>)) \<and>
            (is_off_token v \<longrightarrow>
               SmartStrip_set_state db tr s v index w =
                 (sent_result tr (relay_command (Some cid) 0),
                  w\<lparr>sent := sent w @ [relay_command (Some cid) 0]\<rparr>)))"
proof -
  have all: "SmartStrip_set_state db tr s v (- 1) w = SmartStrip_state_setter db tr s v w"
    by (simp add: SmartStrip_set_state_def)
  have one: "SmartStrip_set_state db tr s v index w =
      SmartPlug_set_state db tr \<lparr>host = h, plug_context = cid\<rparr> v w"
    if "0 \<le> index \<and> index < int (num_children s) \<and> child_id si0 index = Inr cid"
  proof -
    from that init_plugs_Some [OF assms, of index]
    have "plugs s index = Some \<lparr>host = h, plug_context = cid\<rparr>"
      by auto
    with that show ?thesis
      by (simp add: SmartStrip_set_state_def raise_for_index_def)
  qed
  show ?thesis
    using on_token_not_off [of v]
    by (auto simp: all one SmartStrip_state_setter_token SmartPlug_set_state_token
        SmartStrip_turn_on_all SmartStrip_turn_off_all SmartPlug_turn_on_sends
        SmartPlug_turn_off_sends)
qed

theorem set_state_sends_one_command_witness:
  "SmartStrip_set_state sample_db accepting strip4 (PyStr (ascii ''OFF'')) (- 1) world0 =
     (Inr (), \<lparr>sent = [relay_command None 0], warned = []\<rparr>) \<and>
   SmartStrip_set_state sample_db accepting strip4 (PyStr (ascii ''OFF'')) 2 world0 =
     (Inr (), \<lparr>sent = [relay_command (Some (PyStr (ascii ''8006E9A402''))) 0], warned = []\<rparr>) \<and>
   SmartStrip_set_state sample_db accepting strip4 (PyStr (ascii ''on'')) 3 world0 =
     (Inr (), \<lparr>sent = [relay_command (Some (PyStr (ascii ''8006E9A403''))) 1], warned = []\<rparr>)"
proof -
  have ids: "child_id strip4_info 2 = Inr (PyStr (ascii ''8006E9A402''))"
    "child_id strip4_info 3 = Inr (PyStr (ascii ''8006E9A403''))"
    by (simp_all add: child_id_def strip4_info_def strip4_children_def dict_get_def seq_index_def)
  have num: "num_children strip4 = 4"
    by (simp add: strip4_def)
  have tok: "is_off_token (PyStr (ascii ''OFF''))" "is_on_token (PyStr (ascii ''on''))"
    by (simp_all add: is_off_token_def is_on_token_def)
  show ?thesis
    using tok ids num
      set_state_sends_one_command [OF strip4_init, where v = "PyStr (ascii ''OFF'')" and tr = accepting
        and w = world0 and index = 2 and cid = "PyStr (ascii ''8006E9A402'')"]
      set_state_sends_one_command [OF strip4_init, where v = "PyStr (ascii ''on'')" and tr = accepting
        and w = world0 and index = 3 and cid = "PyStr (ascii ''8006E9A403'')"]
    by (simp add: sent_result_def accepting_def world0_def)
qed

text \<open>
  C2, as the code has it. On a constructed strip every negative index, not only -1,
  selects the aggregate form of each of the six operations. An index that is not below
  the outlet count fails with \<open>SmartStripException\<close> and leaves the log as it was, for
  \<open>get_emeter_realtime\<close> when the strip has the energy meter; without it that
  operation returns \<open>None\<close>.
\<close>

theorem index_dispatch:
  assumes "SmartStrip_init h si0 = Inr s"
  shows "(index < 0 \<longrightarrow>
            SmartStrip_set_state db tr s v index w = SmartStrip_set_state db tr s v (- 1) w \<and>
            SmartStrip_is_on f1 s si index w = SmartStrip_is_on f1 s si (- 1) w \<and>
            SmartStrip_turn_on tr s index w = SmartStrip_turn_on tr s (- 1) w \<and>
            SmartStrip_turn_off tr s index w = SmartStrip_turn_off tr s (- 1) w \<and>
            SmartStrip_on_since f2 s si index w = SmartStrip_on_since f2 s si (- 1) w \<and>
            SmartStrip_get_emeter_realtime marker f3 s si index w =
              SmartStrip_get_emeter_realtime marker f3 s si (- 1) w) \<and>
         (int (num_children s) \<le> index \<longrightarrow>
            SmartStrip_set_state db tr s v index w = (Inl SmartStripException, w) \<and>
            SmartStrip_is_on f1 s si index w = (Inl SmartStripException, w) \<and>
            SmartStrip_turn_on tr s index w = (Inl SmartStripException, w) \<and>
            SmartStrip_turn_off tr s index w = (Inl SmartStripException, w) \<and>
            SmartStrip_on_since f2 s si index w = (Inl SmartStripException, w) \<and>
            (has_emeter marker si = Inr True \<longrightarrow>
               SmartStrip_get_emeter_realtime marker f3 s si index w =
                 (Inl SmartStripException, w)) \<and>
            (has_emeter marker si = Inr False \<longrightarrow>
               SmartStrip_get_emeter_realtime marker f3 s si index w = (Inr None, w)))"
proof (intro conjI impI)
  assume "int (num_children s) \<le> index"
  then have r: "raise_for_index s index = Inl SmartStripException" and nn: "\<not> index < 0"
    by (simp_all add: raise_for_index_iff [OF assms])
  from r nn show "SmartStrip_set_state db tr s v index w = (Inl SmartStripException, w)"
    by (simp add: SmartStrip_set_state_def)
  from r nn show "SmartStrip_is_on f1 s si index w = (Inl SmartStripException, w)"
    by (simp add: SmartStrip_is_on_def)
  from r nn show "SmartStrip_turn_on tr s index w = (Inl SmartStripException, w)"
    by (simp add: SmartStrip_turn_on_def)
  from r nn show "SmartStrip_turn_off tr s index w = (Inl SmartStripException, w)"
    by (simp add: SmartStrip_turn_off_def)
  from r nn show "SmartStrip_on_since f2 s si index w = (Inl SmartStripException, w)"
    by (simp add: SmartStrip_on_since_def)
  from r nn show "SmartStrip_get_emeter_realtime marker f3 s si index w =
      (Inl SmartStripException, w)" if "has_emeter marker si = Inr True"
    using that by (simp add: SmartStrip_get_emeter_realtime_def)
  show "SmartStrip_get_emeter_realtime marker f3 s si index w = (Inr None, w)"
    if "has_emeter marker si = Inr False"
    using that by (simp add: SmartStrip_get_emeter_realtime_def)
qed (simp_all add: SmartStrip_set_state_def SmartStrip_is_on_def SmartStrip_turn_on_def
    SmartStrip_turn_off_def SmartStrip_on_since_def SmartStrip_get_emeter_realtime_def)

theorem index_dispatch_witness:
  "SmartStrip_turn_off accepting strip4 (- 2) world0 =
     SmartStrip_turn_off accepting strip4 (- 1) world0 \<and>
   SmartStrip_set_state sample_db accepting strip4 (PyStr (ascii ''OFF'')) (- 2) world0 =
     SmartStrip_set_state sample_db accepting strip4 (PyStr (ascii ''OFF'')) (- 1) world0 \<and>
   SmartStrip_turn_off accepting strip4 4 world0 = (Inl SmartStripException, world0) \<and>
   SmartStrip_set_state sample_db accepting strip4 (PyStr (ascii ''OFF'')) 4 world0 =
     (Inl SmartStripException, world0) \<and>
   SmartStrip_get_emeter_realtime (ascii ''ENE'') (query_emeter accepting) strip4 strip4_info_ene 4 world0 =
     (Inl SmartStripException, world0)"
proof -
  have e: "has_emeter (ascii ''ENE'') strip4_info_ene = Inr True"
    by (simp add: has_emeter_def strip4_info_ene_def dict_get_def ascii_def)
  have num: "num_children strip4 = 4"
    by (simp add: strip4_def)
  show ?thesis
    using e num
      index_dispatch [OF strip4_init, where index = "- 2" and tr = accepting
        and v = "PyStr (ascii ''OFF'')" and w = world0 and marker = "ascii ''ENE''" and si = strip4_info_ene
        and ?f1.0 = "query_emeter accepting" and ?f2.0 = "query_emeter accepting"
        and ?f3.0 = "query_emeter accepting"]
      index_dispatch [OF strip4_init, where index = 4 and tr = accepting
        and v = "PyStr (ascii ''OFF'')" and w = world0 and marker = "ascii ''ENE''" and si = strip4_info_ene
        and ?f1.0 = "query_emeter accepting" and ?f2.0 = "query_emeter accepting"
        and ?f3.0 = "query_emeter accepting"]
    by simp
qed

text \<open>
  C2, as stated, fails on the four-outlet strip: \<open>turn_off\<close> with index -2 sends the
  whole-strip command and succeeds, and \<open>get_emeter_realtime\<close> with index 4 on the strip
  without energy meter returns \<open>None\<close>.
\<close>

theorem index_minus_2_selects_aggregate:
  "SmartStrip_turn_off accepting strip4 (- 2) world0 =
     (Inr (), \<lparr>sent = [relay_command None 0], warned = []\<rparr>) \<and>
   SmartStrip_turn_off accepting strip4 (- 2) world0 \<noteq> (Inl SmartStripException, world0) \<and>
   SmartStrip_get_emeter_realtime (ascii ''ENE'') (query_emeter accepting) strip4 strip4_info 4 world0 =
     (Inr None, world0) \<and>
   SmartStrip_get_emeter_realtime (ascii ''ENE'') (query_emeter accepting) strip4 strip4_info 4 world0 \<noteq>
     (Inl SmartStripException, world0)"
  by (simp add: SmartStrip_turn_off_all sent_result_def accepting_def world0_def
      SmartStrip_get_emeter_realtime_def has_emeter_def strip4_info_def dict_get_def ascii_def)

end
